theory Spec2Isabelle
  imports Complex_Main "HOL-Library.Sublist"
begin

section \<open>Python values\<close>

text \<open>
  The adapter works on what \<^verbatim>\<open>json.loads\<close> returns: \<^verbatim>\<open>None\<close>, booleans, integers,
  floats, strings, lists and dictionaries. A dictionary is kept as the list of its items in
  insertion order; a key is looked up with \<open>map_of\<close>. Strings are byte strings: every
  separator the code looks for (\<^verbatim>\<open>"data: "\<close>, \<^verbatim>\<open>"."\<close>, \<^verbatim>\<open>"reasoning/"\<close>) is ASCII, so a byte
  offset and a code point offset agree wherever the code slices. Floats are the reals
  (\<^verbatim>\<open>NaN\<close> and the infinities are left out); the code only ever tests them for truth.
\<close>

datatype json =
    JNull
  | JBool bool
  | JInt int
  | JFloat real
  | JStr string
  | JArr "json list"
  | JObj "(string \<times> json) list"

type_synonym dict = "(string \<times> json) list"

text \<open>The exceptions that can leave the code.\<close>

datatype error =
    JSONDecodeError
  | AttributeError
  | IndexError
  | KeyError
  | TypeError
  | HTTPStatusError
  | TransportError

text \<open>\<^verbatim>\<open>bool(x)\<close>: what \<^verbatim>\<open>if x\<close>, \<^verbatim>\<open>not x\<close>, \<^verbatim>\<open>x and y\<close> and \<^verbatim>\<open>x or y\<close> test.\<close>

fun truthy :: "json \<Rightarrow> bool" where
  "truthy JNull = False"
| "truthy (JBool b) = b"
| "truthy (JInt n) = (n \<noteq> 0)"
| "truthy (JFloat r) = (r \<noteq> 0)"
| "truthy (JStr s) = (s \<noteq> [])"
| "truthy (JArr xs) = (xs \<noteq> [])"
| "truthy (JObj kvs) = (kvs \<noteq> [])"

text \<open>\<^verbatim>\<open>d.get(k, default)\<close> on a dictionary; \<^verbatim>\<open>d.get(k)\<close> is \<open>dict_get d k JNull\<close>.\<close>

definition dict_get :: "dict \<Rightarrow> string \<Rightarrow> json \<Rightarrow> json" where
  "dict_get d k dflt = (case map_of d k of None \<Rightarrow> dflt | Some v \<Rightarrow> v)"

text \<open>\<^verbatim>\<open>d[k] = v\<close>: an existing key keeps its place, a new key goes to the end.\<close>

fun dict_set :: "dict \<Rightarrow> string \<Rightarrow> json \<Rightarrow> dict" where
  "dict_set [] k v = [(k, v)]"
| "dict_set ((k', v') # d) k v =
     (if k' = k then (k, v) # d else (k', v') # dict_set d k v)"

text \<open>
  The receiver of \<^verbatim>\<open>.get\<close> must be a dictionary: no other decoded value has that
  attribute.
\<close>

fun as_dict :: "json \<Rightarrow> error + dict" where
  "as_dict (JObj d) = Inr d"
| "as_dict _ = Inl AttributeError"

text \<open>
  \<^verbatim>\<open>x[0]\<close>: the first element of a list, the first character of a string (a string
  again), \<^verbatim>\<open>KeyError\<close> on a dictionary (its keys are strings), \<^verbatim>\<open>TypeError\<close> on
  anything else.
\<close>

fun py_item0 :: "json \<Rightarrow> error + json" where
  "py_item0 (JArr []) = Inl IndexError"
| "py_item0 (JArr (x # xs)) = Inr x"
| "py_item0 (JStr []) = Inl IndexError"
| "py_item0 (JStr (c # cs)) = Inr (JStr [c])"
| "py_item0 (JObj d) = Inl KeyError"
| "py_item0 _ = Inl TypeError"

text \<open>\<^verbatim>\<open>s.startswith(p)\<close>.\<close>

definition startswith :: "string \<Rightarrow> string \<Rightarrow> bool" where
  "startswith s p = (take (length p) s = p)"

text \<open>\<^verbatim>\<open>s.split(sep, 1)\<close> for a separator of one character: at most one cut, at the first
  separator.\<close>

definition split1 :: "char \<Rightarrow> string \<Rightarrow> string list" where
  "split1 sep s =
     (case dropWhile (\<lambda>c. c \<noteq> sep) s of
        [] \<Rightarrow> [s]
      | _ # after \<Rightarrow> [takeWhile (\<lambda>c. c \<noteq> sep) s, after])"

text \<open>\<^verbatim>\<open>s.replace(old, new, 1)\<close>: the leftmost occurrence of \<open>old\<close> is replaced, if there
  is one.\<close>

fun replace1 :: "string \<Rightarrow> string \<Rightarrow> string \<Rightarrow> string" where
  "replace1 old new [] = (if old = [] then new else [])"
| "replace1 old new (c # cs) =
     (if startswith (c # cs) old then new @ drop (length old) (c # cs)
      else c # replace1 old new cs)"

section \<open>Configuration and the model catalogue\<close>

record valves =
  OPENROUTER_API_BASE_URL :: string
  OPENROUTER_API_KEY :: string

definition default_valves :: valves where
  "default_valves =
     \<lparr>OPENROUTER_API_BASE_URL = ''https://openrouter.ai/api/v1'', OPENROUTER_API_KEY = ''''\<rparr>"

definition models :: "string list" where
  "models =
     [''deepseek/deepseek-r1-distill-llama-70b'',
      ''deepseek/deepseek-r1'',
      ''deepseek/deepseek-r1:free'',
      ''anthropic/claude-3.7-sonnet'']"

definition pipes :: "dict list" where
  "pipes =
     map (\<lambda>model. [(''id'', JStr (''reasoning/'' @ model)),
                    (''name'', JStr (''reasoning/'' @ model))]) models"

section \<open>The request\<close>

text \<open>
  Lines 58 to 65 of \<^verbatim>\<open>Pipe.pipe\<close>: the body is copied, the model identifier (when the
  key is there) is rewritten, and \<^verbatim>\<open>include_reasoning\<close> is set. A model that is not a
  string has no \<^verbatim>\<open>split\<close>; the error leaves \<^verbatim>\<open>pipe\<close>, since these lines stand before
  its \<^verbatim>\<open>try\<close>.
\<close>

definition model_id :: "string \<Rightarrow> string" where
  "model_id m = replace1 ''reasoning/'' '''' (last (split1 (CHR ''.'') m))"

definition pipe_modified_body :: "dict \<Rightarrow> error + dict" where
  "pipe_modified_body body =
     (case map_of body ''model'' of
        None \<Rightarrow> Inr (dict_set body ''include_reasoning'' (JBool True))
      | Some (JStr m) \<Rightarrow>
          Inr (dict_set (dict_set body ''model'' (JStr (model_id m)))
                 ''include_reasoning'' (JBool True))
      | Some _ \<Rightarrow> Inl AttributeError)"

definition request_headers :: "valves \<Rightarrow> (string \<times> string) list" where
  "request_headers v =
     [(''Authorization'', ''Bearer '' @ OPENROUTER_API_KEY v),
      (''Content-Type'', ''application/json''),
      (''HTTP-Referer'', ''https://openwebui.com/''),
      (''X-Title'', ''Open WebUI'')]"

section \<open>The upstream\<close>

text \<open>
  The HTTP client is outside the code. A POST either raises (no connection, a timeout) or
  gives a response; \<open>is_error\<close> is what \<^verbatim>\<open>raise_for_status\<close> tests, \<open>json_body\<close> what
  \<^verbatim>\<open>response.json()\<close> returns or raises, and \<open>body_lines\<close> what \<^verbatim>\<open>aiter_lines\<close> hands
  out, an item \<open>Inl e\<close> being a read that raises \<open>e\<close>.
\<close>

record response =
  is_error :: bool
  json_body :: "error + json"
  body_lines :: "(error + string) list"

type_synonym transport = "string \<Rightarrow> dict \<Rightarrow> (string \<times> string) list \<Rightarrow> error + response"

definition endpoint :: "valves \<Rightarrow> string" where
  "endpoint v = OPENROUTER_API_BASE_URL v @ ''/chat/completions''"

section \<open>The buffered path\<close>

text \<open>
  \<^verbatim>\<open>_handle_normal_request\<close>, as the value of awaiting it: \<open>Inl\<close> is the exception the
  await raises. The rewrite of the choices (lines 93 to 100) is the parameter \<open>reshape\<close>.
\<close>

definition handle_normal_request ::
  "transport \<Rightarrow> (json \<Rightarrow> error + json) \<Rightarrow> valves \<Rightarrow> dict \<Rightarrow> (string \<times> string) list
     \<Rightarrow> error + json" where
  "handle_normal_request post reshape v body headers =
     (case post (endpoint v) body headers of
        Inl e \<Rightarrow> Inl e
      | Inr resp \<Rightarrow>
          if is_error resp then Inl HTTPStatusError
          else (case json_body resp of Inl e \<Rightarrow> Inl e | Inr data \<Rightarrow> reshape data))"

section \<open>The streaming path\<close>

text \<open>
  What the generator yields, by the \<^verbatim>\<open>yield\<close> statement that produced it: the opening
  marker (line 138), the closing marker (line 142), a fragment (line 147), each with the
  object handed to \<^verbatim>\<open>json.dumps\<close>, and the terminal line (line 150).
\<close>

datatype site = OpenMarker | CloseMarker | ContentChunk

datatype yielded = Chunk site json | Done

text \<open>
  The loop's variable \<^verbatim>\<open>thinking_state\<close> (\<open>-1\<close> not started, \<open>0\<close> thinking, \<open>1\<close>
  answered), and the number of times the clock has been read: \<open>clock k\<close> is what
  \<^verbatim>\<open>int(time.time())\<close> gives at the read number \<open>k\<close>.
\<close>

record tstate =
  thinking_state :: int
  ticks :: nat

definition init_state :: tstate where
  "init_state = \<lparr>thinking_state = - 1, ticks = 0\<rparr>"

text \<open>
  The dictionary built in \<^verbatim>\<open>construct_chunk\<close>: \<open>data\<close> is the event of the current
  iteration, \<open>body\<close> the request sent upstream.
\<close>

definition chunk_object :: "int \<Rightarrow> dict \<Rightarrow> dict \<Rightarrow> json \<Rightarrow> json" where
  "chunk_object now data body content =
     JObj [(''id'', dict_get data ''id'' JNull),
           (''object'', JStr ''chat.completion.chunk''),
           (''created'', JInt now),
           (''model'', dict_get body ''model'' JNull),
           (''choices'',
              JArr [JObj [(''index'', JInt 0),
                          (''delta'', JObj [(''content'', content),
                                            (''role'', JStr ''assistant'')]),
                          (''finish_reason'', JNull)]])]"

definition construct_chunk ::
  "(json \<Rightarrow> string) \<Rightarrow> int \<Rightarrow> dict \<Rightarrow> dict \<Rightarrow> json \<Rightarrow> string" where
  "construct_chunk dumps now data body content =
     ''data: '' @ dumps (chunk_object now data body content) @ ''\<newline>\<newline>''"

text \<open>The text of a yield; \<open>dumps\<close> is \<^verbatim>\<open>json.dumps\<close>.\<close>

fun wire :: "(json \<Rightarrow> string) \<Rightarrow> yielded \<Rightarrow> string" where
  "wire dumps (Chunk s obj) = ''data: '' @ dumps obj @ ''\<newline>\<newline>''"
| "wire dumps Done = ''data: [DONE]\<newline>\<newline>''"

text \<open>Lines 136 to 142: the two transitions.\<close>

definition transition ::
  "(nat \<Rightarrow> int) \<Rightarrow> dict \<Rightarrow> dict \<Rightarrow> tstate \<Rightarrow> dict \<Rightarrow> tstate \<times> yielded list" where
  "transition clock data body st delta =
     (if thinking_state st = - 1 \<and> truthy (dict_get delta ''reasoning'' JNull) then
        (st\<lparr>thinking_state := 0, ticks := ticks st + 1\<rparr>,
         [Chunk OpenMarker (chunk_object (clock (ticks st)) data body (JStr ''<think>''))])
      else if thinking_state st = 0 \<and> \<not> truthy (dict_get delta ''reasoning'' JNull)
                \<and> truthy (dict_get delta ''content'' JNull) then
        (st\<lparr>thinking_state := 1, ticks := ticks st + 1\<rparr>,
         [Chunk CloseMarker
            (chunk_object (clock (ticks st)) data body (JStr ''</think>\<newline>\<newline>''))])
      else (st, []))"

text \<open>Lines 145 to 147: \<^verbatim>\<open>a or b\<close> is \<open>a\<close> when \<open>a\<close> is true, else \<open>b\<close>.\<close>

definition output_content ::
  "(nat \<Rightarrow> int) \<Rightarrow> dict \<Rightarrow> dict \<Rightarrow> tstate \<Rightarrow> dict \<Rightarrow> tstate \<times> yielded list" where
  "output_content clock data body st delta =
     (let content =
            (if truthy (dict_get delta ''reasoning'' JNull)
             then dict_get delta ''reasoning'' JNull
             else dict_get delta ''content'' (JStr ''''))
      in if truthy content then
           (st\<lparr>ticks := ticks st + 1\<rparr>,
            [Chunk ContentChunk (chunk_object (clock (ticks st)) data body content)])
         else (st, []))"

text \<open>
  One pass through the loop body: \<open>Next\<close> goes on to the next line, \<open>Stop\<close> is the
  \<^verbatim>\<open>return\<close> of line 151, \<open>Fail\<close> an exception.
\<close>

datatype step = Next tstate "yielded list" | Stop tstate "yielded list" | Fail error

text \<open>Lines 135 to 151, once \<open>data\<close>, \<open>choice\<close> and \<open>delta\<close> are dictionaries.\<close>

definition handle_delta ::
  "(nat \<Rightarrow> int) \<Rightarrow> dict \<Rightarrow> dict \<Rightarrow> tstate \<Rightarrow> dict \<Rightarrow> dict \<Rightarrow> step" where
  "handle_delta clock data body st choice delta =
     (let (st1, ys1) = transition clock data body st delta;
          (st2, ys2) = output_content clock data body st1 delta
      in if truthy (dict_get choice ''finish_reason'' JNull)
         then Stop st2 (ys1 @ ys2 @ [Done])
         else Next st2 (ys1 @ ys2))"

text \<open>
  Lines 132 to 151. Every exception of these lines comes from \<^verbatim>\<open>[0]\<close> or from a
  \<^verbatim>\<open>.get\<close> on something that is not a dictionary; whatever the value of
  \<^verbatim>\<open>thinking_state\<close>, a \<^verbatim>\<open>delta.get\<close> is evaluated before the first \<^verbatim>\<open>yield\<close> (in line
  136, 140 or 145), so a pass that fails has yielded nothing.
\<close>

definition process_event :: "(nat \<Rightarrow> int) \<Rightarrow> dict \<Rightarrow> tstate \<Rightarrow> json \<Rightarrow> step" where
  "process_event clock body st data =
     (case as_dict data of
        Inl e \<Rightarrow> Fail e
      | Inr d \<Rightarrow>
     (case py_item0 (dict_get d ''choices'' (JArr [JObj []])) of
        Inl e \<Rightarrow> Fail e
      | Inr choice \<Rightarrow>
     (case as_dict choice of
        Inl e \<Rightarrow> Fail e
      | Inr c \<Rightarrow>
     (case as_dict (dict_get c ''delta'' (JObj [])) of
        Inl e \<Rightarrow> Fail e
      | Inr delta \<Rightarrow> handle_delta clock d body st c delta))))"

text \<open>Lines 128 to 131; \<open>loads\<close> is \<^verbatim>\<open>json.loads\<close>, \<open>None\<close> where it raises.\<close>

definition process_line ::
  "(string \<Rightarrow> json option) \<Rightarrow> (nat \<Rightarrow> int) \<Rightarrow> dict \<Rightarrow> tstate \<Rightarrow> string \<Rightarrow> step" where
  "process_line loads clock body st line =
     (if \<not> startswith line ''data: '' then Next st []
      else (case loads (drop 6 line) of
              None \<Rightarrow> Fail JSONDecodeError
            | Some data \<Rightarrow> process_event clock body st data))"

text \<open>
  A run of the generator: what it yielded, how it ended, the loop's variables at that
  point, and the lines it never asked for.
\<close>

datatype ending = Exhausted | Returned | Raised error

datatype 'y outcome =
  Outcome (yields: "'y list") (ending: ending) (final: tstate) (unread: "(error + string) list")

fun prepend :: "'y list \<Rightarrow> 'y outcome \<Rightarrow> 'y outcome" where
  "prepend ys (Outcome zs en st r) = Outcome (ys @ zs) en st r"

fun aiter_loop ::
  "(string \<Rightarrow> json option) \<Rightarrow> (nat \<Rightarrow> int) \<Rightarrow> dict \<Rightarrow> tstate \<Rightarrow> (error + string) list
     \<Rightarrow> yielded outcome" where
  "aiter_loop loads clock body st [] = Outcome [] Exhausted st []"
| "aiter_loop loads clock body st (Inl e # rest) = Outcome [] (Raised e) st rest"
| "aiter_loop loads clock body st (Inr line # rest) =
     (case process_line loads clock body st line of
        Fail e \<Rightarrow> Outcome [] (Raised e) st rest
      | Stop st' ys \<Rightarrow> Outcome ys Returned st' rest
      | Next st' ys \<Rightarrow> prepend ys (aiter_loop loads clock body st' rest))"

definition handle_streaming_request ::
  "transport \<Rightarrow> (string \<Rightarrow> json option) \<Rightarrow> (json \<Rightarrow> string) \<Rightarrow> (nat \<Rightarrow> int) \<Rightarrow> valves \<Rightarrow> dict
     \<Rightarrow> (string \<times> string) list \<Rightarrow> string outcome" where
  "handle_streaming_request post loads dumps clock v body headers =
     (case post (endpoint v) body headers of
        Inl e \<Rightarrow> Outcome [] (Raised e) init_state []
      | Inr resp \<Rightarrow>
          if is_error resp then Outcome [] (Raised HTTPStatusError) init_state (body_lines resp)
          else map_outcome (wire dumps) (aiter_loop loads clock body init_state (body_lines resp)))"

section \<open>The entry point\<close>

text \<open>
  \<^verbatim>\<open>pipe\<close> returns what calling an \<^verbatim>\<open>async def\<close> returns: a coroutine or an
  asynchronous generator that has not started to run. Each holds here the result it will
  give once the caller awaits or iterates it. The third value is the string composed in
  the \<^verbatim>\<open>except\<close> clause, from \<open>str_of e\<close>, Python's \<^verbatim>\<open>str(e)\<close>.
\<close>

datatype pipe_return =
    Coroutine "error + json"
  | AsyncGenerator "string outcome"
  | ErrorPayload string

text \<open>The body of the \<^verbatim>\<open>try\<close>, lines 75 to 78: \<open>Inl\<close> is an exception raised inside it.\<close>

definition pipe_try ::
  "transport \<Rightarrow> (json \<Rightarrow> error + json) \<Rightarrow> (string \<Rightarrow> json option) \<Rightarrow> (json \<Rightarrow> string)
     \<Rightarrow> (nat \<Rightarrow> int) \<Rightarrow> valves \<Rightarrow> dict \<Rightarrow> dict \<Rightarrow> (string \<times> string) list
     \<Rightarrow> error + pipe_return" where
  "pipe_try post reshape loads dumps clock v body modified_body headers =
     (if truthy (dict_get body ''stream'' (JBool False))
      then Inr (AsyncGenerator
                  (handle_streaming_request post loads dumps clock v modified_body headers))
      else Inr (Coroutine (handle_normal_request post reshape v modified_body headers)))"

definition pipe ::
  "transport \<Rightarrow> (json \<Rightarrow> error + json) \<Rightarrow> (string \<Rightarrow> json option) \<Rightarrow> (json \<Rightarrow> string)
     \<Rightarrow> (error \<Rightarrow> string) \<Rightarrow> (nat \<Rightarrow> int) \<Rightarrow> valves \<Rightarrow> dict \<Rightarrow> error + pipe_return" where
  "pipe post reshape loads dumps str_of clock v body =
     (case pipe_modified_body body of
        Inl e \<Rightarrow> Inl e
      | Inr modified_body \<Rightarrow>
          (case pipe_try post reshape loads dumps clock v body modified_body
                  (request_headers v) of
             Inl e \<Rightarrow> Inr (ErrorPayload (dumps (JObj [(''error'', JStr (str_of e))])))
           | Inr r \<Rightarrow> Inr r))"

text \<open>What the caller has in hand once it has awaited the coroutine that \<open>pipe\<close> returned.\<close>

fun awaited :: "error + pipe_return \<Rightarrow> error + pipe_return" where
  "awaited (Inr (Coroutine (Inl e))) = Inl e"
| "awaited r = r"

section \<open>Vocabulary of the specification\<close>

text \<open>
  The model identifier as the specification words it: what stands before the last
  \<^verbatim>\<open>"."\<close> is dropped, then the prefix is removed from the front.
\<close>

definition spec_after_last_dot :: "string \<Rightarrow> string" where
  "spec_after_last_dot m =
     (if CHR ''.'' \<in> set m then rev (takeWhile (\<lambda>c. c \<noteq> CHR ''.'') (rev m)) else m)"

definition spec_model_id :: "string \<Rightarrow> string" where
  "spec_model_id m =
     (let r = spec_after_last_dot m
      in if startswith r ''reasoning/'' then drop (length ''reasoning/'') r else r)"

text \<open>A marker is a chunk yielded at line 138 or at line 142.\<close>

fun is_marker :: "yielded \<Rightarrow> bool" where
  "is_marker (Chunk OpenMarker obj) = True"
| "is_marker (Chunk CloseMarker obj) = True"
| "is_marker _ = False"

text \<open>
  What a line holds for the loop: the event \<^verbatim>\<open>data\<close>, its \<^verbatim>\<open>choice\<close> and the \<^verbatim>\<open>delta\<close>
  of the choice, when the line is a data line and the pass gets as far as reading the
  three; \<open>None\<close> when the line is skipped or the pass fails before.
\<close>

definition line_event :: "(string \<Rightarrow> json option) \<Rightarrow> string \<Rightarrow> (dict \<times> dict \<times> dict) option" where
  "line_event loads line =
     (if \<not> startswith line ''data: '' then None
      else (case loads (drop 6 line) of
              None \<Rightarrow> None
            | Some data \<Rightarrow>
            (case as_dict data of
               Inl e \<Rightarrow> None
             | Inr d \<Rightarrow>
             (case py_item0 (dict_get d ''choices'' (JArr [JObj []])) of
                Inl e \<Rightarrow> None
              | Inr choice \<Rightarrow>
              (case as_dict choice of
                 Inl e \<Rightarrow> None
               | Inr c \<Rightarrow>
               (case as_dict (dict_get c ''delta'' (JObj [])) of
                  Inl e \<Rightarrow> None
                | Inr delta \<Rightarrow> Some (d, c, delta)))))))"

text \<open>
  The markers among what was yielded, in order, and the markers a run still owes in a
  given state: both when it has not started, the closing one while it thinks, none once
  it has answered.
\<close>

fun marker_sites :: "yielded list \<Rightarrow> site list" where
  "marker_sites [] = []"
| "marker_sites (Chunk OpenMarker obj # ys) = OpenMarker # marker_sites ys"
| "marker_sites (Chunk CloseMarker obj # ys) = CloseMarker # marker_sites ys"
| "marker_sites (y # ys) = marker_sites ys"

definition pending :: "tstate \<Rightarrow> site list" where
  "pending st =
     (if thinking_state st = - 1 then [OpenMarker, CloseMarker]
      else if thinking_state st = 0 then [CloseMarker]
      else [])"

text \<open>The lines among the items of a stream.\<close>

fun lines_of :: "(error + string) list \<Rightarrow> string list" where
  "lines_of [] = []"
| "lines_of (Inl e # rest) = lines_of rest"
| "lines_of (Inr l # rest) = l # lines_of rest"

section \<open>Sample inputs\<close>

text \<open>
  Events as \<^verbatim>\<open>json.loads\<close> returns them, and the lines that carry them. The specification
  writes \<^verbatim>\<open>{delta: ...}\<close> and \<^verbatim>\<open>{finish_reason: ...}\<close> for an event whose first choice
  has that delta or that finish reason.
\<close>

definition event_think1 :: dict where
  "event_think1 =
     [(''choices'', JArr [JObj [(''delta'', JObj [(''reasoning'', JStr ''Let me think'')])]])]"

definition event_think2 :: dict where
  "event_think2 =
     [(''choices'', JArr [JObj [(''delta'', JObj [(''reasoning'', JStr '' more'')])]])]"

definition event_answer :: dict where
  "event_answer = [(''choices'', JArr [JObj [(''delta'', JObj [(''content'', JStr ''42'')])]])]"

definition event_finish :: dict where
  "event_finish = [(''choices'', JArr [JObj [(''finish_reason'', JStr ''stop'')]])]"

definition event_hello :: dict where
  "event_hello = [(''choices'', JArr [JObj [(''delta'', JObj [(''content'', JStr ''Hello'')])]])]"

definition event_late :: dict where
  "event_late =
     [(''choices'',
        JArr [JObj [(''delta'', JObj [(''reasoning'', JStr ''again''),
                                      (''content'', JStr ''x'')])]])]"

definition event_keepalive :: dict where
  "event_keepalive = [(''id'', JStr ''gen-1'')]"

definition event_bare :: dict where
  "event_bare = [(''choices'', JArr [JObj [(''index'', JInt 0)]])]"

definition line_think1 :: string where
  \<open>line_think1 = ''data: {"choices": [{"delta": {"reasoning": "Let me think"}}]}''\<close>

definition line_think2 :: string where
  \<open>line_think2 = ''data: {"choices": [{"delta": {"reasoning": " more"}}]}''\<close>

definition line_answer :: string where
  \<open>line_answer = ''data: {"choices": [{"delta": {"content": "42"}}]}''\<close>

definition line_finish :: string where
  \<open>line_finish = ''data: {"choices": [{"finish_reason": "stop"}]}''\<close>

definition line_hello :: string where
  \<open>line_hello = ''data: {"choices": [{"delta": {"content": "Hello"}}]}''\<close>

definition line_late :: string where
  \<open>line_late = ''data: {"choices": [{"delta": {"reasoning": "again", "content": "x"}}]}''\<close>

definition line_malformed :: string where
  "line_malformed = ''data: {oops''"

text \<open>
  A decoder that knows the payloads of these lines: on each of them it returns what
  \<^verbatim>\<open>json.loads\<close> returns, and it rejects every other text, the payload of
  \<open>line_malformed\<close> among them. And a clock.
\<close>

definition sample_loads :: "string \<Rightarrow> json option" where
  "sample_loads =
     map_of
       [(drop 6 line_think1, JObj event_think1),
        (drop 6 line_think2, JObj event_think2),
        (drop 6 line_answer, JObj event_answer),
        (drop 6 line_finish, JObj event_finish),
        (drop 6 line_hello, JObj event_hello),
        (drop 6 line_late, JObj event_late)]"

definition sample_clock :: "nat \<Rightarrow> int" where
  "sample_clock k = 1738200000 + int k"

text \<open>
  A request for a buffered answer as the host sends it, the request that goes upstream
  for a streamed one, and an upstream that answers every request with an error status.
\<close>

definition sample_body :: dict where
  "sample_body =
     [(''model'', JStr ''pipe.reasoning/deepseek/deepseek-r1''), (''stream'', JBool False)]"

definition sample_request :: dict where
  "sample_request =
     [(''model'', JStr ''deepseek/deepseek-r1''), (''stream'', JBool True),
      (''include_reasoning'', JBool True)]"

definition failing_post :: transport where
  "failing_post url body headers =
     Inr \<lparr>is_error = True, json_body = Inl JSONDecodeError, body_lines = []\<rparr>"





section \<open>Dictionaries and strings\<close>

lemma map_of_dict_set: "map_of (dict_set d k v) = (map_of d)(k \<mapsto> v)"
  by (induction d k v rule: dict_set.induct) auto

lemma startswith_prefix: "startswith s p \<longleftrightarrow> prefix p s"
proof
  assume "startswith s p"
  then have "s = p @ drop (length p) s" unfolding startswith_def
    using append_take_drop_id[of "length p" s] by simp
  then show "prefix p s" using prefixI by blast
next
  assume "prefix p s"
  then obtain t where "s = p @ t" by (auto simp: prefix_def)
  then show "startswith s p" by (simp add: startswith_def)
qed

lemma dropWhile_cut: "sep \<notin> set a \<Longrightarrow> dropWhile (\<lambda>c. c \<noteq> sep) (a @ sep # r) = sep # r"
  by (induction a) auto

lemma dropWhile_whole: "sep \<notin> set m \<Longrightarrow> dropWhile (\<lambda>c. c \<noteq> sep) m = []"
  by (induction m) auto

lemma last_split1_cut: "sep \<notin> set a \<Longrightarrow> last (split1 sep (a @ sep # r)) = r"
  by (simp add: split1_def dropWhile_cut)

lemma last_split1_whole: "sep \<notin> set m \<Longrightarrow> last (split1 sep m) = m"
  by (simp add: split1_def dropWhile_whole)

lemma replace1_front: "replace1 old new (old @ t) = new @ t"
proof (cases "old @ t")
  case Nil
  then show ?thesis by simp
next
  case (Cons c cs)
  have a: "startswith (c # cs) old" unfolding Cons[symmetric] by (simp add: startswith_def)
  have b: "drop (length old) (c # cs) = t" unfolding Cons[symmetric] by simp
  have "replace1 old new (c # cs) = new @ t" using a b by simp
  then show ?thesis unfolding Cons .
qed

lemma replace1_absent: "\<not> sublist old s \<Longrightarrow> replace1 old new s = s"
proof (induction s)
  case Nil
  then show ?case by auto
next
  case (Cons c cs)
  from Cons.prems have "\<not> prefix old (c # cs)" and "\<not> sublist old cs"
    by (simp_all add: sublist_Cons_right)
  then show ?case using Cons.IH by (simp add: startswith_prefix)
qed

section \<open>One pass of the loop\<close>

lemma process_line_event:
  "line_event loads l = Some (d, c, delta) \<Longrightarrow>
   process_line loads clock body st l = handle_delta clock d body st c delta"
  by (auto simp: line_event_def process_line_def process_event_def
           split: if_splits option.splits sum.splits)

lemma process_line_no_event:
  "line_event loads l = None \<Longrightarrow>
   process_line loads clock body st l = Next st [] \<or> (\<exists>e. process_line loads clock body st l = Fail e)"
  by (auto simp: line_event_def process_line_def process_event_def
           split: if_splits option.splits sum.splits)

lemma handle_delta_not_Fail: "handle_delta clock d body st c delta \<noteq> Fail e"
  by (simp add: handle_delta_def Let_def split: prod.splits)

lemma transition_answered:
  "thinking_state st = 1 \<Longrightarrow> transition clock d body st delta = (st, [])"
  by (simp add: transition_def)

lemma transition_no_reasoning:
  "thinking_state st = - 1 \<Longrightarrow> \<not> truthy (dict_get delta ''reasoning'' JNull) \<Longrightarrow>
   transition clock d body st delta = (st, [])"
  by (simp add: transition_def)

lemma transition_mono:
  "transition clock d body st delta = (st', ys) \<Longrightarrow> thinking_state st \<le> thinking_state st'"
  by (auto simp: transition_def split: if_splits)

lemma transition_no_done:
  "transition clock d body st delta = (st', ys) \<Longrightarrow> Done \<notin> set ys"
  by (auto simp: transition_def split: if_splits)

lemma output_content_state:
  "output_content clock d body st delta = (st', ys) \<Longrightarrow>
   thinking_state st' = thinking_state st \<and> filter is_marker ys = [] \<and> Done \<notin> set ys"
  by (auto simp: output_content_def Let_def split: if_splits)

lemma handle_delta_Next:
  "handle_delta clock d body st c delta = Next st' ys \<Longrightarrow>
   Done \<notin> set ys \<and> \<not> truthy (dict_get c ''finish_reason'' JNull)"
  by (auto simp: handle_delta_def Let_def split: prod.splits if_splits
           dest: transition_no_done output_content_state)

lemma handle_delta_Stop:
  "handle_delta clock d body st c delta = Stop st' ys \<Longrightarrow>
   truthy (dict_get c ''finish_reason'' JNull) \<and> (\<exists>zs. ys = zs @ [Done] \<and> Done \<notin> set zs)"
proof -
  assume h: "handle_delta clock d body st c delta = Stop st' ys"
  obtain st1 ys1 where t: "transition clock d body st delta = (st1, ys1)"
    by (cases "transition clock d body st delta")
  obtain st2 ys2 where oc: "output_content clock d body st1 delta = (st2, ys2)"
    by (cases "output_content clock d body st1 delta")
  have fin: "truthy (dict_get c ''finish_reason'' JNull)" and ys: "ys = (ys1 @ ys2) @ [Done]"
    using h t oc by (auto simp: handle_delta_def split: if_splits)
  have "Done \<notin> set (ys1 @ ys2)"
    using transition_no_done[OF t] output_content_state[OF oc] by simp
  then show ?thesis using fin ys by blast
qed

lemma process_line_Next:
  "process_line loads clock body st l = Next st' ys \<Longrightarrow> Done \<notin> set ys"
proof (cases "line_event loads l")
  case None
  assume "process_line loads clock body st l = Next st' ys"
  then show ?thesis using process_line_no_event[OF None, of clock body st] by auto
next
  case (Some t)
  assume h: "process_line loads clock body st l = Next st' ys"
  obtain d c delta where ev: "line_event loads l = Some (d, c, delta)" using Some by (cases t) auto
  show ?thesis using h handle_delta_Next[of clock d body st c delta st' ys]
    by (simp add: process_line_event[OF ev])
qed

lemma process_line_Stop:
  assumes "process_line loads clock body st l = Stop st' ys"
  shows "\<exists>d c delta zs. line_event loads l = Some (d, c, delta) \<and>
           truthy (dict_get c ''finish_reason'' JNull) \<and> ys = zs @ [Done] \<and> Done \<notin> set zs"
proof (cases "line_event loads l")
  case None
  then show ?thesis using assms process_line_no_event[OF None, of clock body st] by auto
next
  case (Some t)
  obtain d c delta where ev: "line_event loads l = Some (d, c, delta)" using Some by (cases t) auto
  have "handle_delta clock d body st c delta = Stop st' ys"
    using assms by (simp add: process_line_event[OF ev])
  from handle_delta_Stop[OF this] ev show ?thesis by blast
qed

lemma handle_delta_answered:
  assumes "thinking_state st = 1"
  shows "\<exists>st' ys. thinking_state st' = 1 \<and> filter is_marker ys = [] \<and>
           (handle_delta clock d body st c delta = Next st' ys \<or>
            handle_delta clock d body st c delta = Stop st' ys)"
proof -
  obtain st2 ys2 where oc: "output_content clock d body st delta = (st2, ys2)"
    by (cases "output_content clock d body st delta")
  from output_content_state[OF oc] assms
  have "thinking_state st2 = 1" "filter is_marker ys2 = []" by simp_all
  then show ?thesis
    using oc by (simp add: handle_delta_def transition_answered[OF assms])
qed

lemma process_line_answered:
  assumes "thinking_state st = 1"
  shows "(\<exists>e. process_line loads clock body st l = Fail e) \<or>
         (\<exists>st' ys. thinking_state st' = 1 \<and> filter is_marker ys = [] \<and>
           (process_line loads clock body st l = Next st' ys \<or>
            process_line loads clock body st l = Stop st' ys))"
proof (cases "line_event loads l")
  case None
  from process_line_no_event[OF None, of clock body st] assms show ?thesis by auto
next
  case (Some t)
  then obtain d c delta where "line_event loads l = Some (d, c, delta)" by (cases t) auto
  from process_line_event[OF this] handle_delta_answered[OF assms, of clock d body c delta]
  show ?thesis by auto
qed

lemma handle_delta_quiet:
  assumes "thinking_state st = - 1" and "\<not> truthy (dict_get delta ''reasoning'' JNull)"
  shows "\<exists>st' ys. thinking_state st' = - 1 \<and> filter is_marker ys = [] \<and>
           (handle_delta clock d body st c delta = Next st' ys \<or>
            handle_delta clock d body st c delta = Stop st' ys)"
proof -
  obtain st2 ys2 where oc: "output_content clock d body st delta = (st2, ys2)"
    by (cases "output_content clock d body st delta")
  from output_content_state[OF oc] assms
  have "thinking_state st2 = - 1" "filter is_marker ys2 = []" by simp_all
  then show ?thesis
    using oc by (simp add: handle_delta_def transition_no_reasoning[OF assms])
qed

lemma process_line_quiet:
  assumes "thinking_state st = - 1"
      and "\<forall>d c delta. line_event loads l = Some (d, c, delta)
             \<longrightarrow> \<not> truthy (dict_get delta ''reasoning'' JNull)"
  shows "(\<exists>e. process_line loads clock body st l = Fail e) \<or>
         (\<exists>st' ys. thinking_state st' = - 1 \<and> filter is_marker ys = [] \<and>
           (process_line loads clock body st l = Next st' ys \<or>
            process_line loads clock body st l = Stop st' ys))"
proof (cases "line_event loads l")
  case None
  from process_line_no_event[OF None, of clock body st] assms(1) show ?thesis by auto
next
  case (Some t)
  then obtain d c delta where ev: "line_event loads l = Some (d, c, delta)" by (cases t) auto
  then have "\<not> truthy (dict_get delta ''reasoning'' JNull)" using assms(2) by blast
  from process_line_event[OF ev] handle_delta_quiet[OF assms(1) this, of clock d body c]
  show ?thesis by auto
qed

section \<open>The whole loop\<close>

lemma yields_prepend [simp]: "yields (prepend ys out) = ys @ yields out"
  by (cases out) simp

lemma ending_prepend [simp]: "ending (prepend ys out) = ending out"
  by (cases out) simp

lemma final_prepend [simp]: "final (prepend ys out) = final out"
  by (cases out) simp

lemma unread_prepend [simp]: "unread (prepend ys out) = unread out"
  by (cases out) simp

lemma prepend_prepend [simp]: "prepend ys (prepend zs out) = prepend (ys @ zs) out"
  by (cases out) simp

lemma prepend_Nil [simp]: "prepend [] out = out"
  by (cases out) simp

lemma aiter_loop_append:
  "aiter_loop loads clock body st (pre @ post) =
     (if ending (aiter_loop loads clock body st pre) = Exhausted
      then prepend (yields (aiter_loop loads clock body st pre))
             (aiter_loop loads clock body (final (aiter_loop loads clock body st pre)) post)
      else Outcome (yields (aiter_loop loads clock body st pre))
             (ending (aiter_loop loads clock body st pre))
             (final (aiter_loop loads clock body st pre))
             (unread (aiter_loop loads clock body st pre) @ post))"
proof (induction pre arbitrary: st)
  case Nil
  then show ?case by simp
next
  case (Cons item pre)
  show ?case
  proof (cases item)
    case (Inl e)
    then show ?thesis by simp
  next
    case (Inr l)
    show ?thesis
    proof (cases "process_line loads clock body st l")
      case (Next st' ys)
      then show ?thesis using Inr Cons.IH[of st'] by (simp split: if_splits)
    next
      case (Stop st' ys)
      then show ?thesis using Inr by simp
    next
      case (Fail e)
      then show ?thesis using Inr by simp
    qed
  qed
qed

lemma exhausted_unread: "ending (aiter_loop loads clock body st items) = Exhausted \<Longrightarrow>
  unread (aiter_loop loads clock body st items) = []"
proof (induction items arbitrary: st)
  case Nil
  then show ?case by simp
next
  case (Cons item items)
  then show ?case
    by (cases item) (auto split: step.splits)
qed

lemma aiter_loop_answered:
  "thinking_state st = 1 \<Longrightarrow>
   filter is_marker (yields (aiter_loop loads clock body st items)) = [] \<and>
   thinking_state (final (aiter_loop loads clock body st items)) = 1"
proof (induction items arbitrary: st)
  case Nil
  then show ?case by simp
next
  case (Cons item items)
  show ?case
  proof (cases item)
    case (Inl e)
    then show ?thesis using Cons.prems by simp
  next
    case (Inr l)
    from process_line_answered[OF Cons.prems, of loads clock body l]
    show ?thesis
    proof (elim disjE exE conjE)
      fix e assume "process_line loads clock body st l = Fail e"
      then show ?thesis using Inr Cons.prems by simp
    next
      fix st' ys
      assume a: "thinking_state st' = 1" "filter is_marker ys = []"
        and "process_line loads clock body st l = Next st' ys"
      then show ?thesis using Inr Cons.IH[OF a(1)] by simp
    next
      fix st' ys
      assume a: "thinking_state st' = 1" "filter is_marker ys = []"
        and "process_line loads clock body st l = Stop st' ys"
      then show ?thesis using Inr by simp
    qed
  qed
qed

lemma aiter_loop_quiet:
  "thinking_state st = - 1 \<Longrightarrow>
   \<forall>l \<in> set (lines_of items). \<forall>d c delta. line_event loads l = Some (d, c, delta)
       \<longrightarrow> \<not> truthy (dict_get delta ''reasoning'' JNull) \<Longrightarrow>
   filter is_marker (yields (aiter_loop loads clock body st items)) = [] \<and>
   thinking_state (final (aiter_loop loads clock body st items)) = - 1"
proof (induction items arbitrary: st)
  case Nil
  then show ?case by simp
next
  case (Cons item items)
  show ?case
  proof (cases item)
    case (Inl e)
    then show ?thesis using Cons.prems by simp
  next
    case (Inr l)
    have here: "\<forall>d c delta. line_event loads l = Some (d, c, delta)
             \<longrightarrow> \<not> truthy (dict_get delta ''reasoning'' JNull)"
      using Cons.prems(2) Inr by simp
    have later: "\<forall>l \<in> set (lines_of items). \<forall>d c delta. line_event loads l = Some (d, c, delta)
       \<longrightarrow> \<not> truthy (dict_get delta ''reasoning'' JNull)"
      using Cons.prems(2) Inr by simp
    from process_line_quiet[OF Cons.prems(1) here, of clock body]
    show ?thesis
    proof (elim disjE exE conjE)
      fix e assume "process_line loads clock body st l = Fail e"
      then show ?thesis using Inr Cons.prems(1) by simp
    next
      fix st' ys
      assume a: "thinking_state st' = - 1" "filter is_marker ys = []"
        and "process_line loads clock body st l = Next st' ys"
      then show ?thesis using Inr Cons.IH[OF a(1) later] by simp
    next
      fix st' ys
      assume a: "thinking_state st' = - 1" "filter is_marker ys = []"
        and "process_line loads clock body st l = Stop st' ys"
      then show ?thesis using Inr by simp
    qed
  qed
qed

lemma aiter_loop_done:
  "(ending (aiter_loop loads clock body st items) \<noteq> Returned \<and>
      Done \<notin> set (yields (aiter_loop loads clock body st items)))
   \<or> (ending (aiter_loop loads clock body st items) = Returned \<and>
      (\<exists>ys pre l d c delta.
         yields (aiter_loop loads clock body st items) = ys @ [Done] \<and> Done \<notin> set ys \<and>
         items = pre @ Inr l # unread (aiter_loop loads clock body st items) \<and>
         line_event loads l = Some (d, c, delta) \<and>
         truthy (dict_get c ''finish_reason'' JNull)))"
proof (induction items arbitrary: st)
  case Nil
  then show ?case by simp
next
  case (Cons item items)
  show ?case
  proof (cases item)
    case (Inl e)
    then show ?thesis by simp
  next
    case (Inr l)
    show ?thesis
    proof (cases "process_line loads clock body st l")
      case (Fail e)
      then show ?thesis using Inr by simp
    next
      case (Stop st' ys)
      from process_line_Stop[OF Stop] obtain d c delta zs where
        "line_event loads l = Some (d, c, delta)" "truthy (dict_get c ''finish_reason'' JNull)"
        "ys = zs @ [Done]" "Done \<notin> set zs" by blast
      moreover have "item # items = [] @ Inr l # items" using Inr by simp
      ultimately show ?thesis using Stop Inr by (simp del: append_Nil)
    next
      case (Next st' ys)
      let ?out = "aiter_loop loads clock body st' items"
      have nd: "Done \<notin> set ys" using process_line_Next[OF Next] .
      have eq: "aiter_loop loads clock body st (item # items) = prepend ys ?out"
        using Next Inr by simp
      from Cons.IH[of st'] show ?thesis
      proof (elim disjE conjE exE)
        assume "ending ?out \<noteq> Returned" "Done \<notin> set (yields ?out)"
        then show ?thesis using eq nd by simp
      next
        fix zs pre l' d c delta
        assume a: "ending ?out = Returned" "yields ?out = zs @ [Done]" "Done \<notin> set zs"
          "items = pre @ Inr l' # unread ?out" "line_event loads l' = Some (d, c, delta)"
          "truthy (dict_get c ''finish_reason'' JNull)"
        have 1: "yields (prepend ys ?out) = (ys @ zs) @ [Done]" using a(2) by simp
        have 2: "Done \<notin> set (ys @ zs)" using nd a(3) by simp
        have 3: "item # items = (item # pre) @ Inr l' # unread (prepend ys ?out)"
          using a(4) by simp
        have 4: "ending (prepend ys ?out) = Returned" using a(1) by simp
        show ?thesis unfolding eq using 1 2 3 4 a(5,6) by blast
      qed
    qed
  qed
qed

text \<open>
  The markers yielded so far, followed by the markers still owed, are always the opening
  and the closing marker: each is yielded at most once, the opening one first.
\<close>

lemma marker_sites_append: "marker_sites (xs @ ys) = marker_sites xs @ marker_sites ys"
  by (induction xs rule: marker_sites.induct) auto

lemma transition_pending:
  "transition clock d body st delta = (st', ys) \<Longrightarrow> marker_sites ys @ pending st' = pending st"
  by (auto simp: transition_def pending_def split: if_splits)

lemma output_content_pending:
  "output_content clock d body st delta = (st', ys) \<Longrightarrow>
   marker_sites ys = [] \<and> pending st' = pending st"
  by (auto simp: output_content_def pending_def Let_def split: if_splits)

lemma handle_delta_pending:
  "handle_delta clock d body st c delta = Next st' ys \<or>
   handle_delta clock d body st c delta = Stop st' ys \<Longrightarrow>
   marker_sites ys @ pending st' = pending st"
proof -
  assume h: "handle_delta clock d body st c delta = Next st' ys \<or>
   handle_delta clock d body st c delta = Stop st' ys"
  obtain st1 ys1 where t: "transition clock d body st delta = (st1, ys1)"
    by (cases "transition clock d body st delta")
  obtain st2 ys2 where oc: "output_content clock d body st1 delta = (st2, ys2)"
    by (cases "output_content clock d body st1 delta")
  have "st' = st2 \<and> (ys = ys1 @ ys2 \<or> ys = ys1 @ ys2 @ [Done])"
    using h t oc by (auto simp: handle_delta_def split: if_splits)
  then show ?thesis
    using transition_pending[OF t] output_content_pending[OF oc]
    by (auto simp: marker_sites_append)
qed

lemma process_line_pending:
  assumes "process_line loads clock body st l = Next st' ys \<or>
           process_line loads clock body st l = Stop st' ys"
  shows "marker_sites ys @ pending st' = pending st"
proof (cases "line_event loads l")
  case None
  then show ?thesis using assms process_line_no_event[OF None, of clock body st] by auto
next
  case (Some t)
  obtain d c delta where ev: "line_event loads l = Some (d, c, delta)" using Some by (cases t) auto
  show ?thesis using assms handle_delta_pending[of clock d body st c delta st' ys]
    by (simp add: process_line_event[OF ev])
qed

lemma aiter_loop_pending:
  "marker_sites (yields (aiter_loop loads clock body st items))
     @ pending (final (aiter_loop loads clock body st items)) = pending st"
proof (induction items arbitrary: st)
  case Nil
  then show ?case by simp
next
  case (Cons item items)
  show ?case
  proof (cases item)
    case (Inl e)
    then show ?thesis by simp
  next
    case (Inr l)
    show ?thesis
    proof (cases "process_line loads clock body st l")
      case (Next st' ys)
      then show ?thesis
        using Inr Cons.IH[of st'] process_line_pending[of loads clock body st l st' ys]
        by (simp add: marker_sites_append)
    next
      case (Stop st' ys)
      then show ?thesis using Inr process_line_pending[of loads clock body st l st' ys] by simp
    next
      case (Fail e)
      then show ?thesis using Inr by simp
    qed
  qed
qed

lemma markers_at_most_once:
  "marker_sites (yields (aiter_loop loads clock body init_state items))
     \<in> {[], [OpenMarker], [OpenMarker, CloseMarker]}"
proof -
  let ?out = "aiter_loop loads clock body init_state items"
  have "marker_sites (yields ?out) @ pending (final ?out) = [OpenMarker, CloseMarker]"
    using aiter_loop_pending[of loads clock body init_state items]
    by (simp add: pending_def init_state_def)
  then show ?thesis
    by (auto simp: pending_def append_eq_Cons_conv split: if_splits)
qed

section \<open>The sample inputs, evaluated\<close>

lemmas sample_defs = event_think1_def event_think2_def event_answer_def event_finish_def
  event_hello_def event_late_def line_think1_def line_think2_def line_answer_def
  line_finish_def line_hello_def line_late_def line_malformed_def sample_loads_def

lemma ev_think1: "line_event sample_loads line_think1 =
   Some (event_think1, [(''delta'', JObj [(''reasoning'', JStr ''Let me think'')])],
         [(''reasoning'', JStr ''Let me think'')])"
  by (simp add: line_event_def sample_defs startswith_def dict_get_def)

lemma ev_think2: "line_event sample_loads line_think2 =
   Some (event_think2, [(''delta'', JObj [(''reasoning'', JStr '' more'')])],
         [(''reasoning'', JStr '' more'')])"
  by (simp add: line_event_def sample_defs startswith_def dict_get_def)

lemma ev_answer: "line_event sample_loads line_answer =
   Some (event_answer, [(''delta'', JObj [(''content'', JStr ''42'')])],
         [(''content'', JStr ''42'')])"
  by (simp add: line_event_def sample_defs startswith_def dict_get_def)

lemma ev_finish: "line_event sample_loads line_finish =
   Some (event_finish, [(''finish_reason'', JStr ''stop'')], [])"
  by (simp add: line_event_def sample_defs startswith_def dict_get_def)

lemma ev_hello: "line_event sample_loads line_hello =
   Some (event_hello, [(''delta'', JObj [(''content'', JStr ''Hello'')])],
         [(''content'', JStr ''Hello'')])"
  by (simp add: line_event_def sample_defs startswith_def dict_get_def)

lemma ev_late: "line_event sample_loads line_late =
   Some (event_late, [(''delta'', JObj [(''reasoning'', JStr ''again''), (''content'', JStr ''x'')])],
         [(''reasoning'', JStr ''again''), (''content'', JStr ''x'')])"
  by (simp add: line_event_def sample_defs startswith_def dict_get_def)

lemma ev_malformed: "startswith line_malformed ''data: '' \<and> sample_loads (drop 6 line_malformed) = None"
  by (simp add: sample_defs startswith_def)

lemma step_think1: "process_line sample_loads clock body init_state line_think1 =
   Next \<lparr>thinking_state = 0, ticks = 2\<rparr>
     [Chunk OpenMarker (chunk_object (clock 0) event_think1 body (JStr ''<think>'')),
      Chunk ContentChunk (chunk_object (clock 1) event_think1 body (JStr ''Let me think''))]"
  by (simp add: process_line_event[OF ev_think1] handle_delta_def transition_def
        output_content_def dict_get_def init_state_def)

lemma step_think2: "process_line sample_loads clock body \<lparr>thinking_state = 0, ticks = 2\<rparr> line_think2 =
   Next \<lparr>thinking_state = 0, ticks = 3\<rparr>
     [Chunk ContentChunk (chunk_object (clock 2) event_think2 body (JStr '' more''))]"
  by (simp add: process_line_event[OF ev_think2] handle_delta_def transition_def
        output_content_def dict_get_def)

lemma step_answer: "process_line sample_loads clock body \<lparr>thinking_state = 0, ticks = 3\<rparr> line_answer =
   Next \<lparr>thinking_state = 1, ticks = 5\<rparr>
     [Chunk CloseMarker (chunk_object (clock 3) event_answer body (JStr ''</think>\<newline>\<newline>'')),
      Chunk ContentChunk (chunk_object (clock 4) event_answer body (JStr ''42''))]"
  by (simp add: process_line_event[OF ev_answer] handle_delta_def transition_def
        output_content_def dict_get_def)

lemma step_finish: "process_line sample_loads clock body st line_finish = Stop st [Done]"
  by (simp add: process_line_event[OF ev_finish] handle_delta_def transition_def
        output_content_def dict_get_def)

lemma run_thinking:
  "aiter_loop sample_loads clock body init_state [Inr line_think1, Inr line_think2, Inr line_answer] =
     Outcome
       [Chunk OpenMarker (chunk_object (clock 0) event_think1 body (JStr ''<think>'')),
        Chunk ContentChunk (chunk_object (clock 1) event_think1 body (JStr ''Let me think'')),
        Chunk ContentChunk (chunk_object (clock 2) event_think2 body (JStr '' more'')),
        Chunk CloseMarker (chunk_object (clock 3) event_answer body (JStr ''</think>\<newline>\<newline>'')),
        Chunk ContentChunk (chunk_object (clock 4) event_answer body (JStr ''42''))]
       Exhausted \<lparr>thinking_state = 1, ticks = 5\<rparr> []"
  by (simp add: step_think1 step_think2 step_answer)

lemma run_scenario_a:
  "aiter_loop sample_loads clock body init_state
     (Inr line_think1 # Inr line_think2 # Inr line_answer # Inr line_finish # rest) =
     Outcome
       [Chunk OpenMarker (chunk_object (clock 0) event_think1 body (JStr ''<think>'')),
        Chunk ContentChunk (chunk_object (clock 1) event_think1 body (JStr ''Let me think'')),
        Chunk ContentChunk (chunk_object (clock 2) event_think2 body (JStr '' more'')),
        Chunk CloseMarker (chunk_object (clock 3) event_answer body (JStr ''</think>\<newline>\<newline>'')),
        Chunk ContentChunk (chunk_object (clock 4) event_answer body (JStr ''42'')),
        Done]
       Returned \<lparr>thinking_state = 1, ticks = 5\<rparr> rest"
  by (simp add: step_think1 step_think2 step_answer step_finish)

section \<open>The first scenario\<close>

text \<open>
  C1. When the upstream sends four data lines whose events are, in this order, a delta with
  the reasoning \<^verbatim>\<open>"Let me think"\<close>, a delta with the reasoning \<^verbatim>\<open>" more"\<close>, a delta with the
  content \<^verbatim>\<open>"42"\<close> and a finish reason \<^verbatim>\<open>"stop"\<close>, the generator yields exactly the chunk
  \<^verbatim>\<open><think>\<close>, the two reasoning fragments, the chunk closing the block with two line
  breaks, the answer \<^verbatim>\<open>42\<close> and the terminal line, in this order, then returns; whatever
  follows on the stream stays unread.
\<close>

theorem scenario_reasoning_then_answer:
  assumes "line_event loads l1 = Some (d1, c1, [(''reasoning'', JStr ''Let me think'')])"
      and "dict_get c1 ''finish_reason'' JNull = JNull"
      and "line_event loads l2 = Some (d2, c2, [(''reasoning'', JStr '' more'')])"
      and "dict_get c2 ''finish_reason'' JNull = JNull"
      and "line_event loads l3 = Some (d3, c3, [(''content'', JStr ''42'')])"
      and "dict_get c3 ''finish_reason'' JNull = JNull"
      and "line_event loads l4 = Some (d4, c4, [])"
      and "dict_get c4 ''finish_reason'' JNull = JStr ''stop''"
  shows
    "(let chunk = (\<lambda>k d text.
            JObj [(''id'', dict_get d ''id'' JNull),
                  (''object'', JStr ''chat.completion.chunk''),
                  (''created'', JInt (clock k)),
                  (''model'', dict_get body ''model'' JNull),
                  (''choices'',
                     JArr [JObj [(''index'', JInt 0),
                                 (''delta'', JObj [(''content'', JStr text),
                                                   (''role'', JStr ''assistant'')]),
                                 (''finish_reason'', JNull)]])])
      in aiter_loop loads clock body init_state (Inr l1 # Inr l2 # Inr l3 # Inr l4 # rest) =
           Outcome
             [Chunk OpenMarker (chunk 0 d1 ''<think>''),
              Chunk ContentChunk (chunk 1 d1 ''Let me think''),
              Chunk ContentChunk (chunk 2 d2 '' more''),
              Chunk CloseMarker (chunk 3 d3 ''</think>\<newline>\<newline>''),
              Chunk ContentChunk (chunk 4 d3 ''42''),
              Done]
             Returned \<lparr>thinking_state = 1, ticks = 5\<rparr> rest
         \<and> map (wire dumps)
             (yields (aiter_loop loads clock body init_state
                        (Inr l1 # Inr l2 # Inr l3 # Inr l4 # rest))) =
             [''data: '' @ dumps (chunk 0 d1 ''<think>'') @ ''\<newline>\<newline>'',
              ''data: '' @ dumps (chunk 1 d1 ''Let me think'') @ ''\<newline>\<newline>'',
              ''data: '' @ dumps (chunk 2 d2 '' more'') @ ''\<newline>\<newline>'',
              ''data: '' @ dumps (chunk 3 d3 ''</think>\<newline>\<newline>'') @ ''\<newline>\<newline>'',
              ''data: '' @ dumps (chunk 4 d3 ''42'') @ ''\<newline>\<newline>'',
              ''data: [DONE]\<newline>\<newline>''])"
proof -
  have 1: "process_line loads clock body init_state l1 =
      Next \<lparr>thinking_state = 0, ticks = 2\<rparr>
        [Chunk OpenMarker (chunk_object (clock 0) d1 body (JStr ''<think>'')),
         Chunk ContentChunk (chunk_object (clock 1) d1 body (JStr ''Let me think''))]"
    using assms(2)
    by (simp add: process_line_event[OF assms(1)] handle_delta_def transition_def
          output_content_def dict_get_def init_state_def)
  have 2: "process_line loads clock body \<lparr>thinking_state = 0, ticks = 2\<rparr> l2 =
      Next \<lparr>thinking_state = 0, ticks = 3\<rparr>
        [Chunk ContentChunk (chunk_object (clock 2) d2 body (JStr '' more''))]"
    using assms(4)
    by (simp add: process_line_event[OF assms(3)] handle_delta_def transition_def
          output_content_def dict_get_def)
  have 3: "process_line loads clock body \<lparr>thinking_state = 0, ticks = 3\<rparr> l3 =
      Next \<lparr>thinking_state = 1, ticks = 5\<rparr>
        [Chunk CloseMarker (chunk_object (clock 3) d3 body (JStr ''</think>\<newline>\<newline>'')),
         Chunk ContentChunk (chunk_object (clock 4) d3 body (JStr ''42''))]"
    using assms(6)
    by (simp add: process_line_event[OF assms(5)] handle_delta_def transition_def
          output_content_def dict_get_def)
  have 4: "process_line loads clock body \<lparr>thinking_state = 1, ticks = 5\<rparr> l4 =
      Stop \<lparr>thinking_state = 1, ticks = 5\<rparr> [Done]"
    using assms(8)
    by (simp add: process_line_event[OF assms(7)] handle_delta_def transition_def
          output_content_def dict_get_def)
  have run: "aiter_loop loads clock body init_state (Inr l1 # Inr l2 # Inr l3 # Inr l4 # rest) =
           Outcome
             [Chunk OpenMarker (chunk_object (clock 0) d1 body (JStr ''<think>'')),
              Chunk ContentChunk (chunk_object (clock 1) d1 body (JStr ''Let me think'')),
              Chunk ContentChunk (chunk_object (clock 2) d2 body (JStr '' more'')),
              Chunk CloseMarker (chunk_object (clock 3) d3 body (JStr ''</think>\<newline>\<newline>'')),
              Chunk ContentChunk (chunk_object (clock 4) d3 body (JStr ''42'')),
              Done]
             Returned \<lparr>thinking_state = 1, ticks = 5\<rparr> rest"
    by (simp add: 1 2 3 4)
  show ?thesis unfolding run Let_def by (simp add: chunk_object_def)
qed

theorem scenario_reasoning_then_answer_witness:
  "line_event sample_loads line_think1 =
     Some (event_think1, [(''delta'', JObj [(''reasoning'', JStr ''Let me think'')])],
           [(''reasoning'', JStr ''Let me think'')])
   \<and> line_event sample_loads line_think2 =
     Some (event_think2, [(''delta'', JObj [(''reasoning'', JStr '' more'')])],
           [(''reasoning'', JStr '' more'')])
   \<and> line_event sample_loads line_answer =
     Some (event_answer, [(''delta'', JObj [(''content'', JStr ''42'')])],
           [(''content'', JStr ''42'')])
   \<and> line_event sample_loads line_finish =
     Some (event_finish, [(''finish_reason'', JStr ''stop'')], [])
   \<and> yields (aiter_loop sample_loads sample_clock sample_request init_state
               [Inr line_think1, Inr line_think2, Inr line_answer, Inr line_finish]) =
       [Chunk OpenMarker
          (JObj [(''id'', JNull),
                 (''object'', JStr ''chat.completion.chunk''),
                 (''created'', JInt 1738200000),
                 (''model'', JStr ''deepseek/deepseek-r1''),
                 (''choices'',
                    JArr [JObj [(''index'', JInt 0),
                                (''delta'', JObj [(''content'', JStr ''<think>''),
                                                  (''role'', JStr ''assistant'')]),
                                (''finish_reason'', JNull)]])]),
        Chunk ContentChunk
          (JObj [(''id'', JNull),
                 (''object'', JStr ''chat.completion.chunk''),
                 (''created'', JInt 1738200001),
                 (''model'', JStr ''deepseek/deepseek-r1''),
                 (''choices'',
                    JArr [JObj [(''index'', JInt 0),
                                (''delta'', JObj [(''content'', JStr ''Let me think''),
                                                  (''role'', JStr ''assistant'')]),
                                (''finish_reason'', JNull)]])]),
        Chunk ContentChunk
          (JObj [(''id'', JNull),
                 (''object'', JStr ''chat.completion.chunk''),
                 (''created'', JInt 1738200002),
                 (''model'', JStr ''deepseek/deepseek-r1''),
                 (''choices'',
                    JArr [JObj [(''index'', JInt 0),
                                (''delta'', JObj [(''content'', JStr '' more''),
                                                  (''role'', JStr ''assistant'')]),
                                (''finish_reason'', JNull)]])]),
        Chunk CloseMarker
          (JObj [(''id'', JNull),
                 (''object'', JStr ''chat.completion.chunk''),
                 (''created'', JInt 1738200003),
                 (''model'', JStr ''deepseek/deepseek-r1''),
                 (''choices'',
                    JArr [JObj [(''index'', JInt 0),
                                (''delta'', JObj [(''content'', JStr ''</think>\<newline>\<newline>''),
                                                  (''role'', JStr ''assistant'')]),
                                (''finish_reason'', JNull)]])]),
        Chunk ContentChunk
          (JObj [(''id'', JNull),
                 (''object'', JStr ''chat.completion.chunk''),
                 (''created'', JInt 1738200004),
                 (''model'', JStr ''deepseek/deepseek-r1''),
                 (''choices'',
                    JArr [JObj [(''index'', JInt 0),
                                (''delta'', JObj [(''content'', JStr ''42''),
                                                  (''role'', JStr ''assistant'')]),
                                (''finish_reason'', JNull)]])]),
        Done]"
proof -
  have f1: "dict_get [(''delta'', JObj [(''reasoning'', JStr ''Let me think'')])] ''finish_reason'' JNull = JNull"
    and f2: "dict_get [(''delta'', JObj [(''reasoning'', JStr '' more'')])] ''finish_reason'' JNull = JNull"
    and f3: "dict_get [(''delta'', JObj [(''content'', JStr ''42'')])] ''finish_reason'' JNull = JNull"
    and f4: "dict_get [(''finish_reason'', JStr ''stop'')] ''finish_reason'' JNull = JStr ''stop''"
    by (simp_all add: dict_get_def)
  note t = scenario_reasoning_then_answer
         [OF ev_think1 f1 ev_think2 f2 ev_answer f3 ev_finish f4,
          where clock = sample_clock and body = sample_request and rest = "[]"]
  from t have "aiter_loop sample_loads sample_clock sample_request init_state
               [Inr line_think1, Inr line_think2, Inr line_answer, Inr line_finish] =
     Outcome
       [Chunk OpenMarker
          (JObj [(''id'', JNull),
                 (''object'', JStr ''chat.completion.chunk''),
                 (''created'', JInt 1738200000),
                 (''model'', JStr ''deepseek/deepseek-r1''),
                 (''choices'',
                    JArr [JObj [(''index'', JInt 0),
                                (''delta'', JObj [(''content'', JStr ''<think>''),
                                                  (''role'', JStr ''assistant'')]),
                                (''finish_reason'', JNull)]])]),
        Chunk ContentChunk
          (JObj [(''id'', JNull),
                 (''object'', JStr ''chat.completion.chunk''),
                 (''created'', JInt 1738200001),
                 (''model'', JStr ''deepseek/deepseek-r1''),
                 (''choices'',
                    JArr [JObj [(''index'', JInt 0),
                                (''delta'', JObj [(''content'', JStr ''Let me think''),
                                                  (''role'', JStr ''assistant'')]),
                                (''finish_reason'', JNull)]])]),
        Chunk ContentChunk
          (JObj [(''id'', JNull),
                 (''object'', JStr ''chat.completion.chunk''),
                 (''created'', JInt 1738200002),
                 (''model'', JStr ''deepseek/deepseek-r1''),
                 (''choices'',
                    JArr [JObj [(''index'', JInt 0),
                                (''delta'', JObj [(''content'', JStr '' more''),
                                                  (''role'', JStr ''assistant'')]),
                                (''finish_reason'', JNull)]])]),
        Chunk CloseMarker
          (JObj [(''id'', JNull),
                 (''object'', JStr ''chat.completion.chunk''),
                 (''created'', JInt 1738200003),
                 (''model'', JStr ''deepseek/deepseek-r1''),
                 (''choices'',
                    JArr [JObj [(''index'', JInt 0),
                                (''delta'', JObj [(''content'', JStr ''</think>\<newline>\<newline>''),
                                                  (''role'', JStr ''assistant'')]),
                                (''finish_reason'', JNull)]])]),
        Chunk ContentChunk
          (JObj [(''id'', JNull),
                 (''object'', JStr ''chat.completion.chunk''),
                 (''created'', JInt 1738200004),
                 (''model'', JStr ''deepseek/deepseek-r1''),
                 (''choices'',
                    JArr [JObj [(''index'', JInt 0),
                                (''delta'', JObj [(''content'', JStr ''42''),
                                                  (''role'', JStr ''assistant'')]),
                                (''finish_reason'', JNull)]])]),
        Done]
       Returned \<lparr>thinking_state = 1, ticks = 5\<rparr> []"
    by (simp add: Let_def sample_clock_def sample_request_def event_think1_def
          event_think2_def event_answer_def dict_get_def)
  then have "yields (aiter_loop sample_loads sample_clock sample_request init_state
               [Inr line_think1, Inr line_think2, Inr line_answer, Inr line_finish]) =
       [Chunk OpenMarker
          (JObj [(''id'', JNull),
                 (''object'', JStr ''chat.completion.chunk''),
                 (''created'', JInt 1738200000),
                 (''model'', JStr ''deepseek/deepseek-r1''),
                 (''choices'',
                    JArr [JObj [(''index'', JInt 0),
                                (''delta'', JObj [(''content'', JStr ''<think>''),
                                                  (''role'', JStr ''assistant'')]),
                                (''finish_reason'', JNull)]])]),
        Chunk ContentChunk
          (JObj [(''id'', JNull),
                 (''object'', JStr ''chat.completion.chunk''),
                 (''created'', JInt 1738200001),
                 (''model'', JStr ''deepseek/deepseek-r1''),
                 (''choices'',
                    JArr [JObj [(''index'', JInt 0),
                                (''delta'', JObj [(''content'', JStr ''Let me think''),
                                                  (''role'', JStr ''assistant'')]),
                                (''finish_reason'', JNull)]])]),
        Chunk ContentChunk
          (JObj [(''id'', JNull),
                 (''object'', JStr ''chat.completion.chunk''),
                 (''created'', JInt 1738200002),
                 (''model'', JStr ''deepseek/deepseek-r1''),
                 (''choices'',
                    JArr [JObj [(''index'', JInt 0),
                                (''delta'', JObj [(''content'', JStr '' more''),
                                                  (''role'', JStr ''assistant'')]),
                                (''finish_reason'', JNull)]])]),
        Chunk CloseMarker
          (JObj [(''id'', JNull),
                 (''object'', JStr ''chat.completion.chunk''),
                 (''created'', JInt 1738200003),
                 (''model'', JStr ''deepseek/deepseek-r1''),
                 (''choices'',
                    JArr [JObj [(''index'', JInt 0),
                                (''delta'', JObj [(''content'', JStr ''</think>\<newline>\<newline>''),
                                                  (''role'', JStr ''assistant'')]),
                                (''finish_reason'', JNull)]])]),
        Chunk ContentChunk
          (JObj [(''id'', JNull),
                 (''object'', JStr ''chat.completion.chunk''),
                 (''created'', JInt 1738200004),
                 (''model'', JStr ''deepseek/deepseek-r1''),
                 (''choices'',
                    JArr [JObj [(''index'', JInt 0),
                                (''delta'', JObj [(''content'', JStr ''42''),
                                                  (''role'', JStr ''assistant'')]),
                                (''finish_reason'', JNull)]])]),
        Done]"
    by simp
  then show ?thesis using ev_think1 ev_think2 ev_answer ev_finish by blast
qed

section \<open>The model identifier\<close>

lemma pipe_modified_body_str:
  "map_of body ''model'' = Some (JStr m) \<Longrightarrow>
   pipe_modified_body body =
     Inr (dict_set (dict_set body ''model'' (JStr (model_id m))) ''include_reasoning'' (JBool True))"
  by (simp add: pipe_modified_body_def)

lemma pipe_modified_body_none:
  "map_of body ''model'' = None \<Longrightarrow>
   pipe_modified_body body = Inr (dict_set body ''include_reasoning'' (JBool True))"
  by (simp add: pipe_modified_body_def)

text \<open>
  C2, as the code has it. The request sent upstream is the inbound request with
  \<^verbatim>\<open>include_reasoning\<close> set and every other key but the model left as it was. Let \<open>r\<close> be
  the model identifier after its first \<^verbatim>\<open>"."\<close>, or all of it when it has none: when \<open>r\<close>
  starts with \<^verbatim>\<open>"reasoning/"\<close> the new identifier is \<open>r\<close> without that prefix, and when
  \<^verbatim>\<open>"reasoning/"\<close> does not occur in \<open>r\<close> it is \<open>r\<close>. A request without a model gets
  none.
\<close>

theorem pipe_model_identifier:
  "(map_of body ''model'' = Some (JStr m) \<and>
    ((m = a @ CHR ''.'' # r \<and> CHR ''.'' \<notin> set a) \<or> (CHR ''.'' \<notin> set m \<and> r = m)) \<longrightarrow>
      (\<exists>mb. pipe_modified_body body = Inr mb
         \<and> (\<forall>t. r = ''reasoning/'' @ t \<longrightarrow> map_of mb ''model'' = Some (JStr t))
         \<and> (\<not> sublist ''reasoning/'' r \<longrightarrow> map_of mb ''model'' = Some (JStr r))
         \<and> map_of mb ''include_reasoning'' = Some (JBool True)
         \<and> (\<forall>k. k \<noteq> ''model'' \<and> k \<noteq> ''include_reasoning'' \<longrightarrow> map_of mb k = map_of body k)))
   \<and> (map_of body ''model'' = None \<longrightarrow>
      (\<exists>mb. pipe_modified_body body = Inr mb
         \<and> map_of mb ''model'' = None
         \<and> map_of mb ''include_reasoning'' = Some (JBool True)
         \<and> (\<forall>k. k \<noteq> ''include_reasoning'' \<longrightarrow> map_of mb k = map_of body k)))"
proof (intro conjI impI)
  assume h: "map_of body ''model'' = Some (JStr m) \<and>
    ((m = a @ CHR ''.'' # r \<and> CHR ''.'' \<notin> set a) \<or> (CHR ''.'' \<notin> set m \<and> r = m))"
  then have r: "last (split1 (CHR ''.'') m) = r"
    using last_split1_cut[of "CHR ''.''" a r] last_split1_whole[of "CHR ''.''" m] by auto
  let ?mb = "dict_set (dict_set body ''model'' (JStr (model_id m))) ''include_reasoning'' (JBool True)"
  have 1: "pipe_modified_body body = Inr ?mb" using h by (simp add: pipe_modified_body_str)
  have 2: "map_of ?mb ''model'' = Some (JStr (replace1 ''reasoning/'' '''' r))"
    by (simp add: map_of_dict_set model_id_def r)
  have 3: "\<forall>t. r = ''reasoning/'' @ t \<longrightarrow> map_of ?mb ''model'' = Some (JStr t)"
    using 2 replace1_front[of "''reasoning/''" "''''"] by auto
  have 4: "\<not> sublist ''reasoning/'' r \<longrightarrow> map_of ?mb ''model'' = Some (JStr r)"
    using 2 replace1_absent[of "''reasoning/''" r "''''"] by auto
  have 5: "map_of ?mb ''include_reasoning'' = Some (JBool True)"
    by (simp add: map_of_dict_set)
  have 6: "\<forall>k. k \<noteq> ''model'' \<and> k \<noteq> ''include_reasoning'' \<longrightarrow> map_of ?mb k = map_of body k"
    by (simp add: map_of_dict_set)
  show "\<exists>mb. pipe_modified_body body = Inr mb
         \<and> (\<forall>t. r = ''reasoning/'' @ t \<longrightarrow> map_of mb ''model'' = Some (JStr t))
         \<and> (\<not> sublist ''reasoning/'' r \<longrightarrow> map_of mb ''model'' = Some (JStr r))
         \<and> map_of mb ''include_reasoning'' = Some (JBool True)
         \<and> (\<forall>k. k \<noteq> ''model'' \<and> k \<noteq> ''include_reasoning'' \<longrightarrow> map_of mb k = map_of body k)"
    using 1 3 4 5 6 by blast
next
  assume h: "map_of body ''model'' = None"
  let ?mb = "dict_set body ''include_reasoning'' (JBool True)"
  have "pipe_modified_body body = Inr ?mb" using h by (simp add: pipe_modified_body_none)
  moreover have "map_of ?mb ''model'' = None" using h by (simp add: map_of_dict_set)
  moreover have "map_of ?mb ''include_reasoning'' = Some (JBool True)" by (simp add: map_of_dict_set)
  moreover have "\<forall>k. k \<noteq> ''include_reasoning'' \<longrightarrow> map_of ?mb k = map_of body k"
    by (simp add: map_of_dict_set)
  ultimately show "\<exists>mb. pipe_modified_body body = Inr mb
         \<and> map_of mb ''model'' = None
         \<and> map_of mb ''include_reasoning'' = Some (JBool True)
         \<and> (\<forall>k. k \<noteq> ''include_reasoning'' \<longrightarrow> map_of mb k = map_of body k)"
    by blast
qed

theorem pipe_model_identifier_witness:
  "map_of [(''model'', JStr ''pipe.reasoning/deepseek/deepseek-r1''), (''stream'', JBool True)] ''model''
     = Some (JStr ''pipe.reasoning/deepseek/deepseek-r1'')
   \<and> ''pipe.reasoning/deepseek/deepseek-r1'' = ''pipe'' @ CHR ''.'' # ''reasoning/deepseek/deepseek-r1''
   \<and> CHR ''.'' \<notin> set ''pipe''
   \<and> (\<exists>mb. pipe_modified_body
              [(''model'', JStr ''pipe.reasoning/deepseek/deepseek-r1''), (''stream'', JBool True)]
              = Inr mb
          \<and> map_of mb ''model'' = Some (JStr ''deepseek/deepseek-r1'')
          \<and> map_of mb ''include_reasoning'' = Some (JBool True)
          \<and> map_of mb ''stream'' = Some (JBool True))
   \<and> CHR ''.'' \<notin> set ''deepseek/deepseek-r1''
   \<and> \<not> sublist ''reasoning/'' ''deepseek/deepseek-r1''
   \<and> (\<exists>mb. pipe_modified_body [(''model'', JStr ''deepseek/deepseek-r1'')] = Inr mb
          \<and> map_of mb ''model'' = Some (JStr ''deepseek/deepseek-r1''))
   \<and> map_of [(''stream'', JBool True)] ''model'' = None
   \<and> (\<exists>mb. pipe_modified_body [(''stream'', JBool True)] = Inr mb
          \<and> map_of mb ''model'' = None
          \<and> map_of mb ''include_reasoning'' = Some (JBool True))"
proof -
  let ?b1 = "[(''model'', JStr ''pipe.reasoning/deepseek/deepseek-r1''), (''stream'', JBool True)]"
  have a1: "map_of ?b1 ''model'' = Some (JStr ''pipe.reasoning/deepseek/deepseek-r1'')" by simp
  have a2: "''pipe.reasoning/deepseek/deepseek-r1'' = ''pipe'' @ CHR ''.'' # ''reasoning/deepseek/deepseek-r1''"
    by simp
  have a3: "CHR ''.'' \<notin> set ''pipe''" by simp
  note t1 = pipe_model_identifier[where body = ?b1 and m = "''pipe.reasoning/deepseek/deepseek-r1''"
      and a = "''pipe''" and r = "''reasoning/deepseek/deepseek-r1''", THEN conjunct1, rule_format]
  from t1 a1 a2 a3 obtain mb where mb:
    "pipe_modified_body ?b1 = Inr mb"
    "\<forall>t. ''reasoning/deepseek/deepseek-r1'' = ''reasoning/'' @ t \<longrightarrow> map_of mb ''model'' = Some (JStr t)"
    "map_of mb ''include_reasoning'' = Some (JBool True)"
    "\<forall>k. k \<noteq> ''model'' \<and> k \<noteq> ''include_reasoning'' \<longrightarrow> map_of mb k = map_of ?b1 k"
    by blast
  have "''reasoning/deepseek/deepseek-r1'' = ''reasoning/'' @ ''deepseek/deepseek-r1''" by simp
  with mb(2) have m1: "map_of mb ''model'' = Some (JStr ''deepseek/deepseek-r1'')" by blast
  have m2: "map_of mb ''stream'' = Some (JBool True)" using mb(4) by simp
  have c1: "\<exists>mb. pipe_modified_body ?b1 = Inr mb
          \<and> map_of mb ''model'' = Some (JStr ''deepseek/deepseek-r1'')
          \<and> map_of mb ''include_reasoning'' = Some (JBool True)
          \<and> map_of mb ''stream'' = Some (JBool True)"
    using mb(1,3) m1 m2 by blast
  let ?b2 = "[(''model'', JStr ''deepseek/deepseek-r1'')]"
  have b1: "map_of ?b2 ''model'' = Some (JStr ''deepseek/deepseek-r1'')" by simp
  have b2: "CHR ''.'' \<notin> set ''deepseek/deepseek-r1''" by simp
  have b3: "\<not> sublist ''reasoning/'' ''deepseek/deepseek-r1''" by code_simp
  note t2 = pipe_model_identifier[where body = ?b2 and m = "''deepseek/deepseek-r1''"
      and r = "''deepseek/deepseek-r1''", THEN conjunct1, rule_format]
  from t2 b1 b2 b3 have c2: "\<exists>mb. pipe_modified_body ?b2 = Inr mb
          \<and> map_of mb ''model'' = Some (JStr ''deepseek/deepseek-r1'')"
    by blast
  let ?b3 = "[(''stream'', JBool True)]"
  have n1: "map_of ?b3 ''model'' = None" by simp
  note t3 = pipe_model_identifier[where body = ?b3, THEN conjunct2, rule_format]
  from t3 n1 have c3: "\<exists>mb. pipe_modified_body ?b3 = Inr mb
          \<and> map_of mb ''model'' = None
          \<and> map_of mb ''include_reasoning'' = Some (JBool True)"
    by blast
  show ?thesis using a1 a2 a3 c1 b2 b3 c2 n1 c3 by blast
qed

text \<open>
  The identifier under which the host offers the last model of the catalogue has two
  dots. The code cuts at the first and sends \<^verbatim>\<open>anthropic/claude-3.7-sonnet\<close>; what stands
  after the last dot is \<^verbatim>\<open>7-sonnet\<close>.
\<close>

theorem pipe_model_identifier_counterexample:
  "pipe_modified_body
     [(''model'', JStr ''pipe.reasoning/anthropic/claude-3.7-sonnet''), (''stream'', JBool True)]
   = Inr [(''model'', JStr ''anthropic/claude-3.7-sonnet''), (''stream'', JBool True),
          (''include_reasoning'', JBool True)]
   \<and> spec_model_id ''pipe.reasoning/anthropic/claude-3.7-sonnet'' = ''7-sonnet''"
  by (simp add: pipe_modified_body_def model_id_def split1_def startswith_def
        spec_model_id_def spec_after_last_dot_def)

section \<open>Markers\<close>

text \<open>
  C3. When no event on the stream has a delta whose reasoning is true (present and not
  empty), the generator yields no marker, however long the stream is and however many
  fragments of content it carries.
\<close>

theorem no_reasoning_no_markers:
  assumes "\<forall>l \<in> set (lines_of items). \<forall>d c delta. line_event loads l = Some (d, c, delta)
       \<longrightarrow> \<not> truthy (dict_get delta ''reasoning'' JNull)"
  shows "filter is_marker (yields (aiter_loop loads clock body init_state items)) = []"
  using aiter_loop_quiet[of init_state items loads clock body] assms
  by (simp add: init_state_def)

theorem no_reasoning_no_markers_witness:
  "line_event sample_loads line_hello =
     Some (event_hello, [(''delta'', JObj [(''content'', JStr ''Hello'')])],
           [(''content'', JStr ''Hello'')])
   \<and> \<not> truthy (dict_get [(''content'', JStr ''Hello'')] ''reasoning'' JNull)
   \<and> line_event sample_loads line_finish =
     Some (event_finish, [(''finish_reason'', JStr ''stop'')], [])
   \<and> \<not> truthy (dict_get [] ''reasoning'' JNull)
   \<and> filter is_marker
        (yields (aiter_loop sample_loads sample_clock sample_request init_state
                   [Inr line_hello, Inr line_finish])) = []"
proof -
  have r1: "\<not> truthy (dict_get [(''content'', JStr ''Hello'')] ''reasoning'' JNull)"
    and r2: "\<not> truthy (dict_get [] ''reasoning'' JNull)"
    by (simp_all add: dict_get_def)
  have h: "\<forall>l \<in> set (lines_of [Inr line_hello, Inr line_finish]).
      \<forall>d c delta. line_event sample_loads l = Some (d, c, delta)
        \<longrightarrow> \<not> truthy (dict_get delta ''reasoning'' JNull)"
    using r1 r2 by (auto simp: ev_hello ev_finish)
  from no_reasoning_no_markers[OF h] ev_hello r1 ev_finish r2 show ?thesis by blast
qed

text \<open>
  C4. Once the loop has reached the state answered (\<open>thinking_state = 1\<close>), it stays
  there, and whatever the rest of the stream holds, a delta with reasoning included, what
  the generator yields from then on contains no marker.
\<close>

theorem answered_is_final:
  assumes "ending (aiter_loop loads clock body init_state pre) = Exhausted"
      and "thinking_state (final (aiter_loop loads clock body init_state pre)) = 1"
  shows "\<exists>zs. yields (aiter_loop loads clock body init_state (pre @ post))
                = yields (aiter_loop loads clock body init_state pre) @ zs
            \<and> filter is_marker zs = []
            \<and> thinking_state (final (aiter_loop loads clock body init_state (pre @ post))) = 1"
proof -
  let ?st = "final (aiter_loop loads clock body init_state pre)"
  let ?rest = "aiter_loop loads clock body ?st post"
  have "aiter_loop loads clock body init_state (pre @ post)
          = prepend (yields (aiter_loop loads clock body init_state pre)) ?rest"
    using assms(1) by (simp add: aiter_loop_append)
  moreover have "filter is_marker (yields ?rest) = []" "thinking_state (final ?rest) = 1"
    using aiter_loop_answered[OF assms(2)] by simp_all
  ultimately show ?thesis by simp
qed

theorem answered_is_final_witness:
  "ending (aiter_loop sample_loads sample_clock sample_request init_state
             [Inr line_think1, Inr line_think2, Inr line_answer]) = Exhausted
   \<and> thinking_state (final (aiter_loop sample_loads sample_clock sample_request init_state
                              [Inr line_think1, Inr line_think2, Inr line_answer])) = 1
   \<and> (\<exists>zs. yields (aiter_loop sample_loads sample_clock sample_request init_state
                      ([Inr line_think1, Inr line_think2, Inr line_answer]
                         @ [Inr line_late, Inr line_finish]))
              = yields (aiter_loop sample_loads sample_clock sample_request init_state
                          [Inr line_think1, Inr line_think2, Inr line_answer]) @ zs
          \<and> filter is_marker zs = []
          \<and> thinking_state (final (aiter_loop sample_loads sample_clock sample_request init_state
                ([Inr line_think1, Inr line_think2, Inr line_answer]
                   @ [Inr line_late, Inr line_finish]))) = 1)"
proof -
  have h1: "ending (aiter_loop sample_loads sample_clock sample_request init_state
             [Inr line_think1, Inr line_think2, Inr line_answer]) = Exhausted"
    unfolding run_thinking by simp
  have h2: "thinking_state (final (aiter_loop sample_loads sample_clock sample_request init_state
                              [Inr line_think1, Inr line_think2, Inr line_answer])) = 1"
    unfolding run_thinking by simp
  from answered_is_final[OF h1 h2, of "[Inr line_late, Inr line_finish]"] h1 h2
  show ?thesis by blast
qed

section \<open>The terminal line\<close>

text \<open>
  C5. The generator yields the terminal line at most once. When it yields it, it is the
  last thing yielded, the generator has returned, the event of the last line it read has
  a finish reason other than \<^verbatim>\<open>None\<close>, and every line after that one is left unread.
\<close>

theorem terminal_marker_once:
  "length (filter (\<lambda>y. y = Done) (yields (aiter_loop loads clock body init_state items))) \<le> 1
   \<and> (Done \<in> set (yields (aiter_loop loads clock body init_state items)) \<longrightarrow>
        ending (aiter_loop loads clock body init_state items) = Returned
      \<and> (\<exists>ys. yields (aiter_loop loads clock body init_state items) = ys @ [Done]
               \<and> Done \<notin> set ys)
      \<and> (\<exists>pre l d c delta.
            items = pre @ Inr l # unread (aiter_loop loads clock body init_state items)
          \<and> line_event loads l = Some (d, c, delta)
          \<and> dict_get c ''finish_reason'' JNull \<noteq> JNull))"
proof -
  let ?out = "aiter_loop loads clock body init_state items"
  from aiter_loop_done[of loads clock body init_state items] show ?thesis
  proof (elim disjE conjE exE)
    assume "ending ?out \<noteq> Returned" "Done \<notin> set (yields ?out)"
    then have "filter (\<lambda>y. y = Done) (yields ?out) = []" by (auto simp: filter_empty_conv)
    then show ?thesis using \<open>Done \<notin> set (yields ?out)\<close> by simp
  next
    fix ys pre l d c delta
    assume a: "ending ?out = Returned" "yields ?out = ys @ [Done]" "Done \<notin> set ys"
      "items = pre @ Inr l # unread ?out" "line_event loads l = Some (d, c, delta)"
      "truthy (dict_get c ''finish_reason'' JNull)"
    have f: "filter (\<lambda>y. y = Done) ys = []" using a(3) by (auto simp: filter_empty_conv)
    have 1: "length (filter (\<lambda>y. y = Done) (yields ?out)) \<le> 1" using a(2) f by simp
    have 2: "dict_get c ''finish_reason'' JNull \<noteq> JNull" using a(6) by auto
    show ?thesis using 1 2 a(1-5) by blast
  qed
qed

theorem terminal_marker_once_witness:
  "Done \<in> set (yields (aiter_loop sample_loads sample_clock sample_request init_state
       [Inr line_think1, Inr line_think2, Inr line_answer, Inr line_finish, Inr line_hello]))
   \<and> ending (aiter_loop sample_loads sample_clock sample_request init_state
       [Inr line_think1, Inr line_think2, Inr line_answer, Inr line_finish, Inr line_hello])
       = Returned
   \<and> unread (aiter_loop sample_loads sample_clock sample_request init_state
       [Inr line_think1, Inr line_think2, Inr line_answer, Inr line_finish, Inr line_hello])
       = [Inr line_hello]
   \<and> length (filter (\<lambda>y. y = Done)
        (yields (aiter_loop sample_loads sample_clock sample_request init_state
       [Inr line_think1, Inr line_think2, Inr line_answer, Inr line_finish, Inr line_hello])))
       \<le> 1"
proof -
  let ?out = "aiter_loop sample_loads sample_clock sample_request init_state
       [Inr line_think1, Inr line_think2, Inr line_answer, Inr line_finish, Inr line_hello]"
  have h: "Done \<in> set (yields ?out)" unfolding run_scenario_a by simp
  have u: "unread ?out = [Inr line_hello]" unfolding run_scenario_a by simp
  note t = terminal_marker_once[of sample_loads sample_clock sample_request
       "[Inr line_think1, Inr line_think2, Inr line_answer, Inr line_finish, Inr line_hello]"]
  from t have c1: "length (filter (\<lambda>y. y = Done) (yields ?out)) \<le> 1" by (rule conjunct1)
  from t h have c2: "ending ?out = Returned" by blast
  show ?thesis using h c2 u c1 by blast
qed

section \<open>Lines that are not JSON\<close>

text \<open>
  C6, as the code has it. When the loop reaches a data line whose payload \<^verbatim>\<open>json.loads\<close>
  rejects (no line before it ended the run), the generator raises the decode error at that
  line: it has yielded what the lines before gave and nothing more, and the lines after
  stay unread.
\<close>

theorem malformed_line_is_fatal:
  assumes "ending (aiter_loop loads clock body init_state pre) = Exhausted"
      and "startswith l ''data: ''"
      and "loads (drop 6 l) = None"
  shows "aiter_loop loads clock body init_state (pre @ Inr l # post) =
           Outcome (yields (aiter_loop loads clock body init_state pre))
                   (Raised JSONDecodeError)
                   (final (aiter_loop loads clock body init_state pre))
                   post"
proof -
  have "process_line loads clock body st l = Fail JSONDecodeError" for st
    using assms(2,3) by (simp add: process_line_def)
  then have "aiter_loop loads clock body st (Inr l # post) = Outcome [] (Raised JSONDecodeError) st post" for st
    by simp
  then show ?thesis using assms(1) by (simp add: aiter_loop_append)
qed

theorem malformed_line_is_fatal_witness:
  "ending (aiter_loop sample_loads sample_clock sample_request init_state [Inr line_think1])
     = Exhausted
   \<and> startswith line_malformed ''data: ''
   \<and> sample_loads (drop 6 line_malformed) = None
   \<and> aiter_loop sample_loads sample_clock sample_request init_state
        ([Inr line_think1] @ Inr line_malformed # [Inr line_answer]) =
      Outcome
        [Chunk OpenMarker (chunk_object 1738200000 event_think1 sample_request (JStr ''<think>'')),
         Chunk ContentChunk
           (chunk_object 1738200001 event_think1 sample_request (JStr ''Let me think''))]
        (Raised JSONDecodeError) \<lparr>thinking_state = 0, ticks = 2\<rparr> [Inr line_answer]"
proof -
  have run: "aiter_loop sample_loads sample_clock sample_request init_state [Inr line_think1] =
      Outcome
        [Chunk OpenMarker (chunk_object 1738200000 event_think1 sample_request (JStr ''<think>'')),
         Chunk ContentChunk
           (chunk_object 1738200001 event_think1 sample_request (JStr ''Let me think''))]
        Exhausted \<lparr>thinking_state = 0, ticks = 2\<rparr> []"
    by (simp add: step_think1 sample_clock_def)
  have h1: "ending (aiter_loop sample_loads sample_clock sample_request init_state [Inr line_think1])
     = Exhausted" unfolding run by simp
  have h2: "startswith line_malformed ''data: ''" and h3: "sample_loads (drop 6 line_malformed) = None"
    using ev_malformed by simp_all
  from malformed_line_is_fatal[OF h1 h2 h3, of "[Inr line_answer]"]
  have "aiter_loop sample_loads sample_clock sample_request init_state
        ([Inr line_think1] @ Inr line_malformed # [Inr line_answer]) =
      Outcome
        [Chunk OpenMarker (chunk_object 1738200000 event_think1 sample_request (JStr ''<think>'')),
         Chunk ContentChunk
           (chunk_object 1738200001 event_think1 sample_request (JStr ''Let me think''))]
        (Raised JSONDecodeError) \<lparr>thinking_state = 0, ticks = 2\<rparr> [Inr line_answer]"
    unfolding run by simp
  then show ?thesis using h1 h2 h3 by blast
qed

text \<open>
  A stream can hold such a line and the run end without an error: the generator returns
  at a finish reason and never reads what comes after.
\<close>

theorem malformed_line_is_fatal_counterexample:
  "Inr line_malformed \<in> set [Inr line_finish, Inr line_malformed :: error + string]
   \<and> startswith line_malformed ''data: ''
   \<and> sample_loads (drop 6 line_malformed) = None
   \<and> aiter_loop sample_loads sample_clock sample_request init_state
        [Inr line_finish, Inr line_malformed] =
      Outcome [Done] Returned init_state [Inr line_malformed]
   \<and> ending (aiter_loop sample_loads sample_clock sample_request init_state
        [Inr line_finish, Inr line_malformed]) \<noteq> Raised JSONDecodeError"
  using ev_malformed by (simp add: step_finish)

section \<open>Missing fields\<close>

lemma py_item0_dict:
  "py_item0 v = Inr (JObj c) \<longleftrightarrow> (\<exists>cs. v = JArr (JObj c # cs))"
  by (cases v rule: py_item0.cases) auto

lemma process_event_fails_iff:
  "(\<exists>e. process_event clock body st (JObj d) = Fail e) \<longleftrightarrow>
     \<not> (map_of d ''choices'' = None
        \<or> (\<exists>c cs. map_of d ''choices'' = Some (JArr (JObj c # cs))
              \<and> (map_of c ''delta'' = None \<or> (\<exists>delta. map_of c ''delta'' = Some (JObj delta)))))"
proof
  assume f: "\<exists>e. process_event clock body st (JObj d) = Fail e"
  show "\<not> (map_of d ''choices'' = None
        \<or> (\<exists>c cs. map_of d ''choices'' = Some (JArr (JObj c # cs))
              \<and> (map_of c ''delta'' = None \<or> (\<exists>delta. map_of c ''delta'' = Some (JObj delta)))))"
  proof
    assume "map_of d ''choices'' = None
        \<or> (\<exists>c cs. map_of d ''choices'' = Some (JArr (JObj c # cs))
              \<and> (map_of c ''delta'' = None \<or> (\<exists>delta. map_of c ''delta'' = Some (JObj delta))))"
    then have "\<forall>e. process_event clock body st (JObj d) \<noteq> Fail e"
      by (auto simp: process_event_def dict_get_def handle_delta_not_Fail)
    with f show False by blast
  qed
next
  assume n: "\<not> (map_of d ''choices'' = None
        \<or> (\<exists>c cs. map_of d ''choices'' = Some (JArr (JObj c # cs))
              \<and> (map_of c ''delta'' = None \<or> (\<exists>delta. map_of c ''delta'' = Some (JObj delta)))))"
  then obtain v where v: "map_of d ''choices'' = Some v" by auto
  show "\<exists>e. process_event clock body st (JObj d) = Fail e"
  proof (cases "py_item0 v")
    case (Inl e)
    then show ?thesis using v by (simp add: process_event_def dict_get_def)
  next
    case (Inr choice)
    show ?thesis
    proof (cases "as_dict choice")
      case (Inl e)
      then show ?thesis using v Inr by (simp add: process_event_def dict_get_def)
    next
      case c: (Inr c)
      then have "choice = JObj c" by (cases choice) auto
      then obtain cs where vv: "v = JArr (JObj c # cs)" using Inr py_item0_dict by blast
      from n v vv obtain w where w: "map_of c ''delta'' = Some w" "\<forall>delta. w \<noteq> JObj delta"
        by auto
      then have "as_dict w = Inl AttributeError" by (cases w) auto
      then show ?thesis using v vv w(1) by (simp add: process_event_def dict_get_def)
    qed
  qed
qed

text \<open>
  C7, as the code has it. Every field is read with \<^verbatim>\<open>.get\<close> and a default, and the default
  stands in for a key that is absent, not for a value of another shape. An event (a
  dictionary) without the key \<^verbatim>\<open>choices\<close> is passed over: nothing is yielded, the state is
  unchanged, the loop goes on. An event whose first choice has no key \<^verbatim>\<open>delta\<close> yields no
  chunk, and the terminal line exactly when its finish reason is true. The pass fails
  exactly when \<^verbatim>\<open>choices\<close> is present and is not a list that starts with a dictionary, or
  the \<^verbatim>\<open>delta\<close> of that dictionary is present and is not a dictionary.
\<close>

theorem absent_keys_are_defaulted:
  "(map_of d ''choices'' = None \<longrightarrow> process_event clock body st (JObj d) = Next st [])
   \<and> (map_of d ''choices'' = Some (JArr (JObj c # cs)) \<and> map_of c ''delta'' = None \<longrightarrow>
        process_event clock body st (JObj d) =
          (if truthy (dict_get c ''finish_reason'' JNull) then Stop st [Done] else Next st []))
   \<and> ((\<exists>e. process_event clock body st (JObj d) = Fail e) \<longleftrightarrow>
        \<not> (map_of d ''choices'' = None
           \<or> (\<exists>c cs. map_of d ''choices'' = Some (JArr (JObj c # cs))
                 \<and> (map_of c ''delta'' = None
                      \<or> (\<exists>delta. map_of c ''delta'' = Some (JObj delta))))))"
proof (intro conjI impI)
  assume "map_of d ''choices'' = None"
  then show "process_event clock body st (JObj d) = Next st []"
    by (simp add: process_event_def dict_get_def handle_delta_def transition_def
          output_content_def)
next
  assume "map_of d ''choices'' = Some (JArr (JObj c # cs)) \<and> map_of c ''delta'' = None"
  then show "process_event clock body st (JObj d) =
          (if truthy (dict_get c ''finish_reason'' JNull) then Stop st [Done] else Next st [])"
    by (simp add: process_event_def dict_get_def handle_delta_def transition_def
          output_content_def)
next
  show "(\<exists>e. process_event clock body st (JObj d) = Fail e) \<longleftrightarrow>
        \<not> (map_of d ''choices'' = None
           \<or> (\<exists>c cs. map_of d ''choices'' = Some (JArr (JObj c # cs))
                 \<and> (map_of c ''delta'' = None
                      \<or> (\<exists>delta. map_of c ''delta'' = Some (JObj delta)))))"
    by (rule process_event_fails_iff)
qed

theorem absent_keys_are_defaulted_witness:
  "map_of event_keepalive ''choices'' = None
   \<and> process_event sample_clock sample_request init_state (JObj event_keepalive) = Next init_state []
   \<and> map_of event_bare ''choices'' = Some (JArr (JObj [(''index'', JInt 0)] # []))
   \<and> map_of [(''index'', JInt 0)] ''delta'' = None
   \<and> process_event sample_clock sample_request init_state (JObj event_bare) = Next init_state []
   \<and> (\<forall>e. process_event sample_clock sample_request init_state (JObj event_bare) \<noteq> Fail e)
   \<and> map_of [(''choices'', JArr [])] ''choices'' = Some (JArr [])
   \<and> (\<exists>e. process_event sample_clock sample_request init_state
              (JObj [(''choices'', JArr [])]) = Fail e)"
proof -
  have h1: "map_of event_keepalive ''choices'' = None" by (simp add: event_keepalive_def)
  have h2: "map_of event_bare ''choices'' = Some (JArr (JObj [(''index'', JInt 0)] # []))
            \<and> map_of [(''index'', JInt 0)] ''delta'' = None"
    by (simp add: event_bare_def)
  have h3: "map_of event_bare ''choices'' = None
        \<or> (\<exists>c cs. map_of event_bare ''choices'' = Some (JArr (JObj c # cs))
              \<and> (map_of c ''delta'' = None \<or> (\<exists>delta. map_of c ''delta'' = Some (JObj delta))))"
    using h2 by blast
  have h4: "map_of [(''choices'', JArr [])] ''choices'' = Some (JArr [])" by simp
  have h5: "\<not> (map_of [(''choices'', JArr [])] ''choices'' = None
        \<or> (\<exists>c cs. map_of [(''choices'', JArr [])] ''choices'' = Some (JArr (JObj c # cs))
              \<and> (map_of c ''delta'' = None \<or> (\<exists>delta. map_of c ''delta'' = Some (JObj delta)))))"
    by simp
  note t1 = absent_keys_are_defaulted[where d = event_keepalive and clock = sample_clock
              and body = sample_request and st = init_state]
  note t2 = absent_keys_are_defaulted[where d = event_bare and c = "[(''index'', JInt 0)]"
              and cs = "[]" and clock = sample_clock and body = sample_request
              and st = init_state]
  note t3 = absent_keys_are_defaulted[where d = "[(''choices'', JArr [])]"
              and clock = sample_clock and body = sample_request and st = init_state]
  from t1 h1 have c1: "process_event sample_clock sample_request init_state (JObj event_keepalive)
      = Next init_state []" by blast
  from t2 h2 have "process_event sample_clock sample_request init_state (JObj event_bare) =
      (if truthy (dict_get [(''index'', JInt 0)] ''finish_reason'' JNull)
       then Stop init_state [Done] else Next init_state [])" by blast
  then have c2: "process_event sample_clock sample_request init_state (JObj event_bare)
      = Next init_state []" by (simp add: dict_get_def)
  from t2 h3 have c3: "\<forall>e. process_event sample_clock sample_request init_state (JObj event_bare) \<noteq> Fail e"
    by blast
  from t3 h5 have c4: "\<exists>e. process_event sample_clock sample_request init_state
              (JObj [(''choices'', JArr [])]) = Fail e"
    by blast
  show ?thesis using h1 h2 c1 c2 c3 h4 c4 by blast
qed

text \<open>
  An event with an empty list of choices has no first choice, and one whose first choice
  has \<^verbatim>\<open>null\<close> for its delta has no delta to read from: the first raises at \<^verbatim>\<open>[0]\<close>, the
  second at \<^verbatim>\<open>delta.get\<close>.
\<close>

theorem absent_keys_are_defaulted_counterexample:
  "process_event sample_clock sample_request init_state (JObj [(''choices'', JArr [])])
     = Fail IndexError
   \<and> process_event sample_clock sample_request init_state
       (JObj [(''choices'', JArr [JObj [(''delta'', JNull)]])])
     = Fail AttributeError"
  by (simp add: process_event_def dict_get_def)

section \<open>Errors of the transport on the buffered path\<close>

lemma pipe_try_returns:
  "pipe_try post reshape loads dumps clock v body modified_body headers \<noteq> Inl e"
  by (simp add: pipe_try_def)

lemma pipe_never_error_payload:
  "pipe post reshape loads dumps str_of clock v body \<noteq> Inr (ErrorPayload s)"
  by (auto simp: pipe_def pipe_try_def split: sum.splits)

lemma pipe_buffered_transport_error:
  assumes "pipe_modified_body body = Inr modified_body"
      and "\<not> truthy (dict_get body ''stream'' (JBool False))"
      and "post (endpoint v) modified_body (request_headers v) = Inl e
           \<or> (\<exists>resp. post (endpoint v) modified_body (request_headers v) = Inr resp
                 \<and> is_error resp \<and> e = HTTPStatusError)"
  shows "pipe post reshape loads dumps str_of clock v body = Inr (Coroutine (Inl e))"
  using assms by (auto simp: pipe_def pipe_try_def handle_normal_request_def)

text \<open>
  C8 fails on the code. \<^verbatim>\<open>pipe\<close> returns the coroutine of \<^verbatim>\<open>_handle_normal_request\<close>
  without awaiting it, so nothing can raise inside its \<^verbatim>\<open>try\<close>: for a buffered request
  answered with an error status, the caller holds a coroutine, and awaiting it raises the
  status error. The payload of the \<^verbatim>\<open>except\<close> clause is never produced.
\<close>

theorem pipe_transport_error_unhandled:
  "pipe failing_post reshape loads dumps str_of clock default_valves sample_body
     = Inr (Coroutine (Inl HTTPStatusError))
   \<and> awaited (pipe failing_post reshape loads dumps str_of clock default_valves sample_body)
     = Inl HTTPStatusError"
proof -
  have mb: "pipe_modified_body sample_body =
     Inr [(''model'', JStr ''deepseek/deepseek-r1''), (''stream'', JBool False),
          (''include_reasoning'', JBool True)]"
    by (simp add: pipe_modified_body_def sample_body_def model_id_def split1_def startswith_def)
  have "pipe failing_post reshape loads dumps str_of clock default_valves sample_body
     = Inr (Coroutine (Inl HTTPStatusError))"
    unfolding pipe_def mb
    by (simp add: pipe_try_def handle_normal_request_def failing_post_def
          sample_body_def dict_get_def)
  then show ?thesis by simp
qed

section \<open>Reasoning after the answer\<close>

text \<open>
  C10. In the state answered, a line whose delta has a true reasoning yields that reasoning
  as one ordinary chunk, whatever the content of the same delta, and no marker; the
  terminal line follows when the event has a true finish reason.
\<close>

theorem late_reasoning_is_content:
  assumes "thinking_state st = 1"
      and "line_event loads l = Some (d, c, delta)"
      and "truthy (dict_get delta ''reasoning'' JNull)"
  shows
    "(let chunk =
            JObj [(''id'', dict_get d ''id'' JNull),
                  (''object'', JStr ''chat.completion.chunk''),
                  (''created'', JInt (clock (ticks st))),
                  (''model'', dict_get body ''model'' JNull),
                  (''choices'',
                     JArr [JObj [(''index'', JInt 0),
                                 (''delta'', JObj [(''content'', dict_get delta ''reasoning'' JNull),
                                                   (''role'', JStr ''assistant'')]),
                                 (''finish_reason'', JNull)]])]
      in process_line loads clock body st l =
           (if truthy (dict_get c ''finish_reason'' JNull)
            then Stop (st\<lparr>ticks := ticks st + 1\<rparr>) [Chunk ContentChunk chunk, Done]
            else Next (st\<lparr>ticks := ticks st + 1\<rparr>) [Chunk ContentChunk chunk]))"
  using assms(3)
  by (simp add: process_line_event[OF assms(2)] handle_delta_def transition_answered[OF assms(1)]
        output_content_def chunk_object_def Let_def)

theorem late_reasoning_is_content_witness:
  "thinking_state \<lparr>thinking_state = 1, ticks = 5\<rparr> = 1
   \<and> line_event sample_loads line_late =
       Some (event_late,
             [(''delta'', JObj [(''reasoning'', JStr ''again''), (''content'', JStr ''x'')])],
             [(''reasoning'', JStr ''again''), (''content'', JStr ''x'')])
   \<and> truthy (dict_get [(''reasoning'', JStr ''again''), (''content'', JStr ''x'')] ''reasoning'' JNull)
   \<and> process_line sample_loads sample_clock sample_request \<lparr>thinking_state = 1, ticks = 5\<rparr> line_late =
       Next \<lparr>thinking_state = 1, ticks = 6\<rparr>
         [Chunk ContentChunk
            (JObj [(''id'', JNull),
                    (''object'', JStr ''chat.completion.chunk''),
                    (''created'', JInt 1738200005),
                    (''model'', JStr ''deepseek/deepseek-r1''),
                    (''choices'',
                       JArr [JObj [(''index'', JInt 0),
                                   (''delta'', JObj [(''content'', JStr ''again''),
                                                     (''role'', JStr ''assistant'')]),
                                   (''finish_reason'', JNull)]])])]"
proof -
  have h1: "thinking_state \<lparr>thinking_state = 1, ticks = 5\<rparr> = 1" by simp
  have h3: "truthy (dict_get [(''reasoning'', JStr ''again''), (''content'', JStr ''x'')] ''reasoning'' JNull)"
    by (simp add: dict_get_def)
  from late_reasoning_is_content[OF h1 ev_late h3, where clock = sample_clock
         and body = sample_request]
  have "process_line sample_loads sample_clock sample_request \<lparr>thinking_state = 1, ticks = 5\<rparr> line_late =
       Next \<lparr>thinking_state = 1, ticks = 6\<rparr>
         [Chunk ContentChunk
            (JObj [(''id'', JNull),
                    (''object'', JStr ''chat.completion.chunk''),
                    (''created'', JInt 1738200005),
                    (''model'', JStr ''deepseek/deepseek-r1''),
                    (''choices'',
                       JArr [JObj [(''index'', JInt 0),
                                   (''delta'', JObj [(''content'', JStr ''again''),
                                                     (''role'', JStr ''assistant'')]),
                                   (''finish_reason'', JNull)]])])]"
    by (simp add: Let_def dict_get_def sample_clock_def sample_request_def event_late_def)
  then show ?thesis using h1 ev_late h3 by blast
qed

section \<open>The chunk on the wire\<close>

text \<open>
  What the generator hands out is text: each yield is the frame \<^verbatim>\<open>data: \<close>, the text
  that \<^verbatim>\<open>json.dumps\<close> gives for the dictionary of \<^verbatim>\<open>construct_chunk\<close>, and two line
  breaks.
\<close>

lemma wire_chunk: "wire dumps (Chunk s (chunk_object now d body content)) = construct_chunk dumps now d body content"
  by (simp add: construct_chunk_def)

lemma construct_chunk_frame:
  "startswith (construct_chunk dumps now d body content) ''data: ''
   \<and> drop 6 (construct_chunk dumps now d body content)
       = dumps (chunk_object now d body content) @ ''\<newline>\<newline>''"
  by (simp add: construct_chunk_def startswith_def)

lemma handle_streaming_request_ok:
  "post (endpoint v) body headers = Inr resp \<Longrightarrow> \<not> is_error resp \<Longrightarrow>
   yields (handle_streaming_request post loads dumps clock v body headers)
     = map (wire dumps) (yields (aiter_loop loads clock body init_state (body_lines resp)))
   \<and> ending (handle_streaming_request post loads dumps clock v body headers)
     = ending (aiter_loop loads clock body init_state (body_lines resp))"
  by (cases "aiter_loop loads clock body init_state (body_lines resp)")
     (simp add: handle_streaming_request_def)



end
